theory Spec2Isabelle
  imports Complex_Main
begin

section \<open>Floating-point values of the numeric libraries\<close>

text \<open>
  The source computes on IEEE doubles held in pandas Series and numpy arrays. A double is
  modelled as an exact real, or one of the three special values. Rounding, overflow and the
  sign of zero are not modelled; the special values follow the IEEE rules that numpy applies
  once \<open>np.seterr(divide="ignore", invalid="ignore")\<close> (core.py, line 33) has silenced the
  warnings: a division by zero gives an infinity or NaN, it never raises.
\<close>

datatype fl = Fin real | PInf | NInf | NaN

fun isnan :: "fl \<Rightarrow> bool" where
  "isnan NaN = True"
| "isnan _ = False"

fun fl_neg :: "fl \<Rightarrow> fl" where
  "fl_neg (Fin a) = Fin (- a)"
| "fl_neg PInf = NInf"
| "fl_neg NInf = PInf"
| "fl_neg NaN = NaN"

fun fl_add :: "fl \<Rightarrow> fl \<Rightarrow> fl" where
  "fl_add NaN _ = NaN"
| "fl_add _ NaN = NaN"
| "fl_add (Fin a) (Fin b) = Fin (a + b)"
| "fl_add PInf NInf = NaN"
| "fl_add NInf PInf = NaN"
| "fl_add PInf _ = PInf"
| "fl_add NInf _ = NInf"
| "fl_add (Fin a) PInf = PInf"
| "fl_add (Fin a) NInf = NInf"

definition fl_sub :: "fl \<Rightarrow> fl \<Rightarrow> fl" where
  "fl_sub a b = fl_add a (fl_neg b)"

text \<open>The sign of a value: \<open>-1\<close>, \<open>0\<close> or \<open>1\<close>; NaN has none.\<close>

fun fl_sign :: "fl \<Rightarrow> int" where
  "fl_sign (Fin a) = (if a < 0 then - 1 else if a = 0 then 0 else 1)"
| "fl_sign PInf = 1"
| "fl_sign NInf = - 1"
| "fl_sign NaN = 0"

definition inf_of_sign :: "int \<Rightarrow> fl" where
  "inf_of_sign s = (if s = 0 then NaN else if s < 0 then NInf else PInf)"

fun fl_mul :: "fl \<Rightarrow> fl \<Rightarrow> fl" where
  "fl_mul NaN _ = NaN"
| "fl_mul _ NaN = NaN"
| "fl_mul (Fin a) (Fin b) = Fin (a * b)"
| "fl_mul a b = inf_of_sign (fl_sign a * fl_sign b)"

fun fl_div :: "fl \<Rightarrow> fl \<Rightarrow> fl" where
  "fl_div NaN _ = NaN"
| "fl_div _ NaN = NaN"
| "fl_div (Fin a) (Fin b) = (if b = 0 then inf_of_sign (fl_sign (Fin a)) else Fin (a / b))"
| "fl_div (Fin a) _ = Fin 0"
| "fl_div a (Fin b) = inf_of_sign (fl_sign a * (if b < 0 then - 1 else 1))"
| "fl_div _ _ = NaN"

fun fl_less :: "fl \<Rightarrow> fl \<Rightarrow> bool" where
  "fl_less NaN _ = False"
| "fl_less _ NaN = False"
| "fl_less (Fin a) (Fin b) = (a < b)"
| "fl_less PInf _ = False"
| "fl_less _ NInf = False"
| "fl_less NInf _ = True"
| "fl_less _ PInf = True"

fun fl_le :: "fl \<Rightarrow> fl \<Rightarrow> bool" where
  "fl_le NaN _ = False"
| "fl_le _ NaN = False"
| "fl_le a b = (a = b \<or> fl_less a b)"

text \<open>\<open>np.maximum(x, 0)\<close>: NaN propagates.\<close>

fun fl_max0 :: "fl \<Rightarrow> fl" where
  "fl_max0 NaN = NaN"
| "fl_max0 (Fin a) = Fin (max a 0)"
| "fl_max0 PInf = PInf"
| "fl_max0 NInf = Fin 0"

text \<open>\<open>x ** 0.5\<close> on a numpy double: the square root, NaN for a negative argument.\<close>

fun fl_sqrt :: "fl \<Rightarrow> fl" where
  "fl_sqrt (Fin a) = (if a < 0 then NaN else Fin (sqrt a))"
| "fl_sqrt PInf = PInf"
| "fl_sqrt NInf = NaN"
| "fl_sqrt NaN = NaN"

fun fl_abs :: "fl \<Rightarrow> fl" where
  "fl_abs (Fin a) = Fin \<bar>a\<bar>"
| "fl_abs PInf = PInf"
| "fl_abs NInf = PInf"
| "fl_abs NaN = NaN"

text \<open>\<open>np.sum\<close> of an array: NaN propagates; the sum of nothing is \<open>0\<close>.\<close>

definition np_sum :: "fl list \<Rightarrow> fl" where
  "np_sum xs = foldl fl_add (Fin 0) xs"

text \<open>pandas \<open>Series.sum()\<close> and \<open>Series.mean()\<close> with the default \<open>skipna=True\<close>, and
  \<open>np.nanmean\<close>: missing values are left out; the mean of nothing is NaN.\<close>

definition dropna :: "fl list \<Rightarrow> fl list" where
  "dropna xs = filter (\<lambda>x. \<not> isnan x) xs"

definition series_sum :: "fl list \<Rightarrow> fl" where
  "series_sum xs = np_sum (dropna xs)"

definition series_mean :: "fl list \<Rightarrow> fl" where
  "series_mean xs =
     (let vs = dropna xs in
      if vs = [] then NaN else fl_div (np_sum vs) (Fin (real (length vs))))"

definition nanmean :: "fl list \<Rightarrow> fl" where
  "nanmean xs = series_mean xs"

text \<open>pandas \<open>Series.sum(skipna=False)\<close>: one missing value makes the sum missing.\<close>

definition series_sum_strict :: "fl list \<Rightarrow> fl" where
  "series_sum_strict xs = np_sum xs"

section \<open>Savings\<close>

text \<open>core.py, lines 96-102.\<close>

definition avoided :: "fl list \<Rightarrow> fl list \<Rightarrow> fl list" where
  "avoided baseline observed = map (\<lambda>(b, ob). fl_sub b ob) (zip baseline observed)"

definition percent_savings :: "fl list \<Rightarrow> fl list \<Rightarrow> string \<Rightarrow> fl" where
  "percent_savings avoided_s baseline thermostat_id =
     (let savings = fl_mul (fl_div (series_mean avoided_s) (series_mean baseline)) (Fin 100)
      in savings)"

section \<open>Errors\<close>

text \<open>Every exception the modelled code can raise is a value; a function that can raise
  returns \<open>error + 'a\<close>, with \<open>Inl\<close> for the exception.\<close>

datatype error = ValueError | IndexError | TypeError | NotImplementedError
  | AssertionError | IndexingError | AttributeError | SolverError

section \<open>Calendar\<close>

text \<open>
  The index of a pandas Series is a sequence of timestamps. A daily index is modelled by its
  dates, an hourly one by date and hour. \<open>is_leap_year\<close> and \<open>dayofyear\<close> are the attributes
  of pandas' \<open>DatetimeIndex\<close>, in the proleptic Gregorian calendar.
\<close>

datatype date = Date (year: int) (month: nat) (day: nat)

datatype timestamp = Timestamp (ts_date: date) (hour: nat)

definition is_leap_year :: "int \<Rightarrow> bool" where
  "is_leap_year y = (y mod 4 = 0 \<and> (y mod 100 \<noteq> 0 \<or> y mod 400 = 0))"

definition days_in_month :: "int \<Rightarrow> nat \<Rightarrow> nat" where
  "days_in_month y m =
     (if m = 2 then (if is_leap_year y then 29 else 28)
      else if m \<in> {4, 6, 9, 11} then 30 else 31)"

definition dayofyear :: "date \<Rightarrow> nat" where
  "dayofyear d = sum_list (map (days_in_month (year d)) [1..<month d]) + day d"

text \<open>Dates compare as \<open>np.datetime64\<close> values do: by year, then month, then day.\<close>

definition date_less :: "date \<Rightarrow> date \<Rightarrow> bool" where
  "date_less a b =
     (year a < year b \<or> (year a = year b \<and>
        (month a < month b \<or> (month a = month b \<and> day a < day b))))"

definition date_le :: "date \<Rightarrow> date \<Rightarrow> bool" where
  "date_le a b = (a = b \<or> date_less a b)"

definition date_max :: "date \<Rightarrow> date \<Rightarrow> date" where
  "date_max a b = (if date_less a b then b else a)"

definition date_min :: "date \<Rightarrow> date \<Rightarrow> date" where
  "date_min a b = (if date_less b a then b else a)"

definition next_day :: "date \<Rightarrow> date" where
  "next_day d =
     (if day d < days_in_month (year d) (month d) then Date (year d) (month d) (day d + 1)
      else if month d < 12 then Date (year d) (month d + 1) 1
      else Date (year d + 1) 1 1)"

text \<open>A daily index of \<open>n\<close> consecutive days, as \<open>resample("D")\<close> builds it.\<close>

fun date_range :: "date \<Rightarrow> nat \<Rightarrow> date list" where
  "date_range d 0 = []"
| "date_range d (Suc n) = d # date_range (next_day d) n"

subsection \<open>Hour of the year (core.py, lines 2331-2334 and 2376-2379)\<close>

definition leap_adjustment :: "timestamp \<Rightarrow> bool" where
  "leap_adjustment ts =
     (is_leap_year (year (ts_date ts)) \<and> dayofyear (ts_date ts) \<ge> 59)"

definition hour_of_year :: "timestamp \<Rightarrow> int" where
  "hour_of_year ts =
     1 + int (hour ts) +
     (int (dayofyear (ts_date ts)) - 1 - (if leap_adjustment ts then 1 else 0)) * 24"

section \<open>Interpolation (core.py, lines 406-409)\<close>

text \<open>
  \<open>_interpolate\<close> calls pandas' \<open>Series.interpolate(method="linear", limit=1,
  limit_direction="both")\<close>. The definitions below follow pandas' \<open>interpolate_1d\<close>:
  with the linear method the samples are taken as equally spaced; every missing sample gets
  the value of \<open>np.interp\<close> over the valid samples (linear between the two surrounding valid
  samples, the nearest valid sample outside them); then the missing samples that the limit
  excludes are set back to NaN. With limit 1 in both directions, those are the missing
  samples that have no valid sample immediately before them and none immediately after.
  A series with no valid sample, or with no missing one, is returned as it is.
\<close>

definition valid :: "fl \<Rightarrow> bool" where
  "valid x = (\<not> isnan x)"

definition prev_valid :: "fl list \<Rightarrow> nat \<Rightarrow> nat option" where
  "prev_valid ys i = List.find (\<lambda>j. valid (ys ! j)) (rev [0..<i])"

definition next_valid :: "fl list \<Rightarrow> nat \<Rightarrow> nat option" where
  "next_valid ys i = List.find (\<lambda>j. valid (ys ! j)) [Suc i..<length ys]"

definition np_interp :: "fl list \<Rightarrow> nat \<Rightarrow> fl" where
  "np_interp ys i =
     (case (prev_valid ys i, next_valid ys i) of
        (Some l, Some r) \<Rightarrow>
          fl_add (fl_mul (fl_div (fl_sub (ys ! r) (ys ! l)) (Fin (real r - real l)))
                         (Fin (real i - real l)))
                 (ys ! l)
      | (None, Some r) \<Rightarrow> ys ! r
      | (Some l, None) \<Rightarrow> ys ! l
      | (None, None) \<Rightarrow> NaN)"

text \<open>\<open>_interp_limit(invalid, 1, 1)\<close>: the positions kept missing.\<close>

definition preserve_nans :: "fl list \<Rightarrow> nat \<Rightarrow> bool" where
  "preserve_nans ys i =
     (\<not> valid (ys ! i) \<and> (i = 0 \<or> \<not> valid (ys ! (i - 1)))
        \<and> (Suc i = length ys \<or> \<not> valid (ys ! Suc i)))"

definition interpolate :: "fl list \<Rightarrow> fl list" where
  "interpolate ys =
     (if \<not> list_ex valid ys then map (\<lambda>_. NaN) ys
      else if list_all valid ys then ys
      else map (\<lambda>i. if valid (ys ! i) then ys ! i
                     else if preserve_nans ys i then NaN
                     else np_interp ys i) [0..<length ys])"

text \<open>The method \<open>_interpolate\<close> of the class (a name cannot start with an underscore here).\<close>

definition interpolate_series :: "fl list \<Rightarrow> string \<Rightarrow> fl list" where
  "interpolate_series series method =
     (if method \<notin> set [''linear''] then series else interpolate series)"

text \<open>A sample as an input file holds it: a finite reading, or missing.\<close>

definition finite_or_nan :: "fl \<Rightarrow> bool" where
  "finite_or_nan x = (case x of Fin _ \<Rightarrow> True | NaN \<Rightarrow> True | _ \<Rightarrow> False)"

section \<open>The time-series container (core.py, lines 105-445)\<close>

text \<open>
  A Series is modelled by the list of its values. All hourly series of a record start at
  midnight of \<open>first_day\<close> and have one sample for every hour after it, all daily series
  start on \<open>first_day\<close> and have one value for every day after it, as the class requires
  of its inputs (``each index should be equivalent'') and as \<open>resample("D")\<close> produces. The
  capability flags come from the equipment taxonomy (module \<open>equipment_type\<close>), which
  is outside the modelled code, so the constructor takes them as arguments in place of the
  type strings. The lookups of climate zones and baseline files are left out.
\<close>

record Thermostat =
  thermostat_id :: string
  has_cooling :: bool
  has_heating :: bool
  has_auxiliary :: bool
  has_emergency :: bool
  has_resistance_heat :: bool
  first_day :: date
  temperature_in :: "fl list"
  temperature_out :: "fl list"
  cool_runtime_hourly :: "fl list option"
  heat_runtime_hourly :: "fl list option"
  cool_runtime_daily :: "fl list"
  heat_runtime_daily :: "fl list"
  auxiliary_heat_runtime :: "fl list option"
  emergency_heat_runtime :: "fl list option"
  auxiliary_runtime_daily :: "fl list"
  emergency_runtime_daily :: "fl list"

text \<open>The hours of each calendar day: the groups of \<open>groupby(index.date)\<close> and the bins of
  \<open>resample("D")\<close>. The last day may be incomplete.\<close>

definition chunks24 :: "'a list \<Rightarrow> 'a list list" where
  "chunks24 xs = map (\<lambda>d. take 24 (drop (24 * d) xs)) [0..<(length xs + 23) div 24]"

text \<open>\<open>series.resample("D").agg(pd.Series.sum, skipna=False)\<close>, guarded by
  \<open>hasattr(series, "empty") and series.empty is False\<close> (lines 207-238).\<close>

definition resample_daily :: "fl list option \<Rightarrow> fl list" where
  "resample_daily series =
     (case series of
        None \<Rightarrow> []
      | Some xs \<Rightarrow> if xs = [] then [] else map series_sum_strict (chunks24 xs))"

definition validate_heating :: "Thermostat \<Rightarrow> error + unit" where
  "validate_heating self =
     (if has_heating self \<and> length (heat_runtime_daily self) = 0 then Inl ValueError
      else Inr ())"

definition validate_cooling :: "Thermostat \<Rightarrow> error + unit" where
  "validate_cooling self =
     (if has_cooling self \<and> length (cool_runtime_daily self) = 0 then Inl ValueError
      else Inr ())"

definition validate_aux_emerg :: "Thermostat \<Rightarrow> error + unit" where
  "validate_aux_emerg self =
     (if has_auxiliary self \<and> has_emergency self
         \<and> (auxiliary_heat_runtime self = None \<or> emergency_heat_runtime self = None)
      then Inl ValueError else Inr ())"

definition validate :: "Thermostat \<Rightarrow> error + unit" where
  "validate self =
     (case validate_heating self of Inl e \<Rightarrow> Inl e
      | Inr _ \<Rightarrow> (case validate_cooling self of Inl e \<Rightarrow> Inl e
      | Inr _ \<Rightarrow> validate_aux_emerg self))"

text \<open>\<open>Thermostat.__init__\<close> (lines 169-245).\<close>

definition Thermostat_init ::
  "string \<Rightarrow> bool \<Rightarrow> bool \<Rightarrow> bool \<Rightarrow> bool \<Rightarrow> bool \<Rightarrow> date \<Rightarrow> fl list \<Rightarrow> fl list
    \<Rightarrow> fl list option \<Rightarrow> fl list option \<Rightarrow> fl list option \<Rightarrow> fl list option
    \<Rightarrow> error + Thermostat" where
  "Thermostat_init tid cooling heating auxiliary emergency resistance_heat day0
       temp_in temp_out cool_runtime heat_runtime aux_runtime emg_runtime =
     (let self = \<lparr> thermostat_id = tid,
                    has_cooling = cooling, has_heating = heating,
                    has_auxiliary = auxiliary, has_emergency = emergency,
                    has_resistance_heat = resistance_heat,
                    first_day = day0,
                    temperature_in = interpolate_series temp_in ''linear'',
                    temperature_out = interpolate_series temp_out ''linear'',
                    cool_runtime_hourly = cool_runtime,
                    heat_runtime_hourly = heat_runtime,
                    cool_runtime_daily = resample_daily cool_runtime,
                    heat_runtime_daily = resample_daily heat_runtime,
                    auxiliary_heat_runtime = aux_runtime,
                    emergency_heat_runtime = emg_runtime,
                    auxiliary_runtime_daily = resample_daily aux_runtime,
                    emergency_runtime_daily = resample_daily emg_runtime \<rparr>
      in case validate self of Inl e \<Rightarrow> Inl e | Inr _ \<Rightarrow> Inr self)"

definition protect_heating :: "Thermostat \<Rightarrow> error + unit" where
  "protect_heating self = (if \<not> has_heating self then Inl ValueError else Inr ())"

definition protect_cooling :: "Thermostat \<Rightarrow> error + unit" where
  "protect_cooling self = (if \<not> has_cooling self then Inl ValueError else Inr ())"



section \<open>Core day sets (core.py, lines 447-685)\<close>

record CoreDaySet =
  name :: string
  daily :: "bool list"
  hourly :: "bool list"
  start_date :: date
  end_date :: date

text \<open>The decimal numeral that \<open>str.format\<close> prints for an integer.\<close>

definition digit_char :: "nat \<Rightarrow> char" where
  "digit_char d = ''0123456789'' ! d"

fun decimal :: "nat \<Rightarrow> string" where
  "decimal n =
     (let q = n div 10
      in if 0 < q then decimal q @ [digit_char (n mod 10)] else [digit_char n])"

definition format_int :: "int \<Rightarrow> string" where
  "format_int i = (if 0 \<le> i then decimal (nat i) else CHR ''-'' # decimal (nat (- i)))"

text \<open>
  \<open>a & b\<close> on two boolean Series. pandas aligns the two indexes first; since both start
  on the same day, the result covers the longer of the two, and a day that one side lacks
  is missing there and becomes \<open>False\<close>.
\<close>

definition and_series :: "bool list \<Rightarrow> bool list \<Rightarrow> bool list" where
  "and_series xs ys =
     map (\<lambda>i. (i < length xs \<and> xs ! i) \<and> (i < length ys \<and> ys ! i))
         [0..<max (length xs) (length ys)]"

text \<open>\<open>series.groupby(series.index.date).apply(lambda x: x.isnull().sum() <= 2)\<close>.\<close>

definition enough_temp :: "fl list \<Rightarrow> bool list" where
  "enough_temp series = map (\<lambda>x. length (filter isnan x) \<le> 2) (chunks24 series)"

definition get_range_boolean :: "date list \<Rightarrow> date \<Rightarrow> date \<Rightarrow> bool list" where
  "get_range_boolean dt_index start end =
     map (\<lambda>d. date_le start d \<and> date_less d end) dt_index"

text \<open>\<open>_get_hourly_boolean\<close>: \<open>np.repeat(values, 24)\<close>; \<open>daily_boolean.index[0]\<close> raises on
  an empty index.\<close>

definition get_hourly_boolean :: "bool list \<Rightarrow> error + bool list" where
  "get_hourly_boolean daily_boolean =
     (if daily_boolean = [] then Inl IndexError
      else Inr (concat (map (replicate 24) daily_boolean)))"

text \<open>
  The loop over the potential core day sets (lines 525-543 and 636-654), the same in both
  methods but for the name and the window of each set, which are passed in. The array
  \<open>in_range\<close> has the length of the daily index, \<open>meets_thresholds\<close> may be longer: then
  \<open>in_range & meets_thresholds\<close> raises, unless \<open>in_range\<close> has one element, which numpy
  repeats. \<open>pd.Series(..., index=index)\<close> keeps the days of the daily index.
\<close>

fun core_day_set_loop ::
  "date list \<Rightarrow> bool list \<Rightarrow> date \<Rightarrow> date \<Rightarrow> (string \<times> date \<times> date) list
    \<Rightarrow> error + CoreDaySet list" where
  "core_day_set_loop dt_index meets_thresholds data_start_date data_end_date [] = Inr []"
| "core_day_set_loop dt_index meets_thresholds data_start_date data_end_date
       ((nm, core_day_set_start_date, core_day_set_end_date) # rest) =
     (let start = date_max core_day_set_start_date data_start_date;
          end = date_min core_day_set_end_date data_end_date;
          in_range = get_range_boolean dt_index start end
      in if length in_range \<noteq> length meets_thresholds \<and> length in_range \<noteq> 1
         then Inl ValueError
         else
           let inclusion_daily =
                 map (\<lambda>i. in_range ! i \<and> meets_thresholds ! i) [0..<length dt_index]
           in if list_ex (\<lambda>b. b) inclusion_daily then
                (case get_hourly_boolean inclusion_daily of
                   Inl e \<Rightarrow> Inl e
                 | Inr inclusion_hourly \<Rightarrow>
                     (case core_day_set_loop dt_index meets_thresholds
                             data_start_date data_end_date rest of
                        Inl e \<Rightarrow> Inl e
                      | Inr sets \<Rightarrow>
                          Inr (\<lparr> name = nm, daily = inclusion_daily,
                                  hourly = inclusion_hourly,
                                  start_date = start, end_date = end \<rparr> # sets)))
              else core_day_set_loop dt_index meets_thresholds
                     data_start_date data_end_date rest)"

text \<open>The method \<open>entire_dataset\<close> (lines 547-561 and 657-670).\<close>

definition entire_dataset_set ::
  "string \<Rightarrow> date list \<Rightarrow> bool list \<Rightarrow> date \<Rightarrow> date \<Rightarrow> error + CoreDaySet list" where
  "entire_dataset_set nm dt_index meets_thresholds data_start_date data_end_date =
     (let inclusion_daily = map (\<lambda>i. meets_thresholds ! i) [0..<length dt_index]
      in case get_hourly_boolean inclusion_daily of
           Inl e \<Rightarrow> Inl e
         | Inr inclusion_hourly \<Rightarrow>
             Inr [\<lparr> name = nm, daily = inclusion_daily, hourly = inclusion_hourly,
                    start_date = data_start_date, end_date = data_end_date \<rparr>])"

definition get_core_heating_days ::
  "Thermostat \<Rightarrow> string \<Rightarrow> int \<Rightarrow> int \<Rightarrow> error + CoreDaySet list" where
  "get_core_heating_days self method min_minutes_heating max_minutes_cooling =
     (if method \<notin> set [''year_mid_to_mid'', ''entire_dataset''] then Inl NotImplementedError
      else case protect_heating self of Inl e \<Rightarrow> Inl e | Inr _ \<Rightarrow>
        let meets_heating_thresholds =
              map (\<lambda>r. fl_le (Fin (real_of_int min_minutes_heating)) r) (heat_runtime_daily self);
            meets_thresholds0 =
              (if has_cooling self then
                 and_series meets_heating_thresholds
                   (map (\<lambda>r. fl_le r (Fin (real_of_int max_minutes_cooling)))
                        (cool_runtime_daily self))
               else meets_heating_thresholds);
            enough_temp_in = enough_temp (temperature_in self);
            enough_temp_out = enough_temp (temperature_out self);
            meets_thresholds =
              and_series meets_thresholds0 (and_series enough_temp_in enough_temp_out);
            dt_index = date_range (first_day self) (length (heat_runtime_daily self))
        in if dt_index = [] then Inl IndexError
           else
             let data_start_date = hd dt_index;
                 data_end_date = last dt_index
             in if method = ''year_mid_to_mid'' then
                  (let start_year = year data_start_date - 1;
                       end_year = year data_end_date + 1;
                       potential_core_day_sets =
                         zip [start_year..end_year - 1] [start_year + 1..end_year]
                   in core_day_set_loop dt_index meets_thresholds data_start_date data_end_date
                        (map (\<lambda>(start_year', end_year').
                                (''heating_'' @ format_int start_year' @ ''-''
                                   @ format_int end_year',
                                 Date start_year' 7 1, Date end_year' 7 1))
                             potential_core_day_sets))
                else entire_dataset_set ''heating_ALL'' dt_index meets_thresholds
                       data_start_date data_end_date)"

definition get_core_cooling_days ::
  "Thermostat \<Rightarrow> string \<Rightarrow> int \<Rightarrow> int \<Rightarrow> error + CoreDaySet list" where
  "get_core_cooling_days self method min_minutes_cooling max_minutes_heating =
     (if method \<notin> set [''year_end_to_end'', ''entire_dataset''] then Inl NotImplementedError
      else case protect_cooling self of Inl e \<Rightarrow> Inl e | Inr _ \<Rightarrow>
        let dt_index = date_range (first_day self) (length (cool_runtime_daily self))
        in if dt_index = [] then Inl IndexError
           else
             let data_start_date = hd dt_index;
                 data_end_date = last dt_index;
                 meets_cooling_thresholds =
                   map (\<lambda>r. fl_le (Fin (real_of_int min_minutes_cooling)) r)
                       (cool_runtime_daily self);
                 meets_thresholds0 =
                   (if has_heating self then
                      and_series
                        (map (\<lambda>r. fl_le r (Fin (real_of_int max_minutes_heating)))
                             (heat_runtime_daily self))
                        meets_cooling_thresholds
                    else meets_cooling_thresholds);
                 enough_temp_in = enough_temp (temperature_in self);
                 enough_temp_out = enough_temp (temperature_out self);
                 meets_thresholds =
                   and_series meets_thresholds0 (and_series enough_temp_in enough_temp_out)
             in if method = ''year_end_to_end'' then
                  (let start_year = year data_start_date;
                       end_year = year data_end_date;
                       potential_core_day_sets = [start_year..end_year]
                   in core_day_set_loop dt_index meets_thresholds data_start_date data_end_date
                        (map (\<lambda>y. (''cooling_'' @ format_int y,
                                    Date y 1 1, Date (y + 1) 1 1))
                             potential_core_day_sets))
                else entire_dataset_set ''cooling_ALL'' dt_index meets_thresholds
                       data_start_date data_end_date)"

text \<open>The number of missing hourly readings of a series on day \<open>i\<close> of the record.\<close>

definition missing_on_day :: "fl list \<Rightarrow> nat \<Rightarrow> nat" where
  "missing_on_day series i = length (filter isnan (take 24 (drop (24 * i) series)))"

text \<open>The calendar date of day \<open>i\<close> of the record.\<close>

definition day_date :: "Thermostat \<Rightarrow> nat \<Rightarrow> date" where
  "day_date self i = (next_day ^^ i) (first_day self)"

text \<open>A date lies in the window of a core day set: from its start date, before its end date.\<close>

definition in_window :: "CoreDaySet \<Rightarrow> date \<Rightarrow> bool" where
  "in_window cds d = (date_le (start_date cds) d \<and> date_less d (end_date cds))"

text \<open>The series of a record cover the same days: 24 temperature samples for each day of
  the daily runtimes.\<close>

definition aligned :: "Thermostat \<Rightarrow> bool" where
  "aligned self =
     (length (temperature_out self) = length (temperature_in self)
      \<and> (has_heating self \<longrightarrow> 24 * length (heat_runtime_daily self) = length (temperature_in self))
      \<and> (has_cooling self \<longrightarrow> 24 * length (cool_runtime_daily self) = length (temperature_in self)))"

text \<open>The value of \<open>meets_thresholds\<close> in \<open>get_core_heating_days\<close> (lines 491-510) and in
  \<open>get_core_cooling_days\<close> (lines 610-627).\<close>

definition heating_mask :: "Thermostat \<Rightarrow> int \<Rightarrow> int \<Rightarrow> bool list" where
  "heating_mask self mn mx =
     and_series
       (if has_cooling self then
          and_series (map (\<lambda>r. fl_le (Fin (real_of_int mn)) r) (heat_runtime_daily self))
                     (map (\<lambda>r. fl_le r (Fin (real_of_int mx))) (cool_runtime_daily self))
        else map (\<lambda>r. fl_le (Fin (real_of_int mn)) r) (heat_runtime_daily self))
       (and_series (enough_temp (temperature_in self)) (enough_temp (temperature_out self)))"

definition cooling_mask :: "Thermostat \<Rightarrow> int \<Rightarrow> int \<Rightarrow> bool list" where
  "cooling_mask self mn mx =
     and_series
       (if has_heating self then
          and_series (map (\<lambda>r. fl_le r (Fin (real_of_int mx))) (heat_runtime_daily self))
                     (map (\<lambda>r. fl_le (Fin (real_of_int mn)) r) (cool_runtime_daily self))
        else map (\<lambda>r. fl_le (Fin (real_of_int mn)) r) (cool_runtime_daily self))
       (and_series (enough_temp (temperature_in self)) (enough_temp (temperature_out self)))"

subsection \<open>Example records\<close>

text \<open>Two days of data, 30 June and 1 July 2019; three outdoor readings of the second day are
  missing.\<close>

definition example_record :: Thermostat where
  "example_record =
     \<lparr> thermostat_id = ''t1'', has_cooling = True, has_heating = True,
       has_auxiliary = False, has_emergency = False, has_resistance_heat = False,
       first_day = Date 2019 6 30,
       temperature_in = replicate 48 (Fin 70),
       temperature_out = replicate 24 (Fin 40) @ replicate 21 (Fin 41) @ [NaN, NaN, NaN],
       cool_runtime_hourly = None, heat_runtime_hourly = None,
       cool_runtime_daily = [Fin 0, Fin 0], heat_runtime_daily = [Fin 45, Fin 50],
       auxiliary_heat_runtime = None, emergency_heat_runtime = None,
       auxiliary_runtime_daily = [], emergency_runtime_daily = [] \<rparr>"

definition example_set :: CoreDaySet where
  "example_set =
     \<lparr> name = ''heating_2018-2019'', daily = [True, False],
       hourly = replicate 24 True @ replicate 24 False,
       start_date = Date 2019 6 30, end_date = Date 2019 7 1 \<rparr>"

text \<open>A record with zero-length series.\<close>

definition empty_record :: Thermostat where
  "empty_record =
     \<lparr> thermostat_id = ''t0'', has_cooling = True, has_heating = True,
       has_auxiliary = False, has_emergency = False, has_resistance_heat = False,
       first_day = Date 2019 1 1,
       temperature_in = [], temperature_out = [],
       cool_runtime_hourly = Some [], heat_runtime_hourly = Some [],
       cool_runtime_daily = [], heat_runtime_daily = [],
       auxiliary_heat_runtime = None, emergency_heat_runtime = None,
       auxiliary_runtime_daily = [], emergency_runtime_daily = [] \<rparr>"

text \<open>Three days of data, 10 to 12 January 2019, with heating runtime on each of them and
  complete temperatures.\<close>

definition three_day_record :: Thermostat where
  "three_day_record =
     \<lparr> thermostat_id = ''t3'', has_cooling = False, has_heating = True,
       has_auxiliary = False, has_emergency = False, has_resistance_heat = False,
       first_day = Date 2019 1 10,
       temperature_in = replicate 72 (Fin 70), temperature_out = replicate 72 (Fin 40),
       cool_runtime_hourly = None, heat_runtime_hourly = None,
       cool_runtime_daily = [], heat_runtime_daily = [Fin 45, Fin 50, Fin 60],
       auxiliary_heat_runtime = None, emergency_heat_runtime = None,
       auxiliary_runtime_daily = [], emergency_runtime_daily = [] \<rparr>"

section \<open>Demand models (core.py, lines 928-1247)\<close>

text \<open>
  \<open>series[mask]\<close>, selection by a boolean Series. pandas reindexes the mask to the index of
  the series and raises \<open>IndexingError\<close> when the mask lacks a label of the series; the labels
  of the mask beyond the series are ignored. A selected value keeps its position as label.
\<close>

definition select :: "'a list \<Rightarrow> bool list \<Rightarrow> error + (nat \<times> 'a) list" where
  "select series bmask =
     (if length bmask < length series then Inl IndexingError
      else Inr (filter (\<lambda>(i, v). bmask ! i) (zip [0..<length series] series)))"

text \<open>\<open>a - b\<close> on two Series: the labels of both, in order; a value that one side lacks is
  missing.\<close>

definition lookup_label :: "(nat \<times> fl) list \<Rightarrow> nat \<Rightarrow> fl" where
  "lookup_label s i = (case map_of s i of None \<Rightarrow> NaN | Some v \<Rightarrow> v)"

definition sub_series :: "(nat \<times> fl) list \<Rightarrow> (nat \<times> fl) list \<Rightarrow> (nat \<times> fl) list" where
  "sub_series a b =
     map (\<lambda>i. (i, fl_sub (lookup_label a i) (lookup_label b i)))
         (sort (remdups (map fst a @ map fst b)))"

text \<open>
  \<open>calc_cdd\<close> and \<open>calc_hdd\<close> (lines 997-1005 and 1156-1164): the hourly degrees, summed
  over the selected hours of each calendar day that has one (the sum leaves missing values
  out) and divided by 24. The argument \<open>degree\<close> is \<open>tau - deltaT\<close> for cooling and
  \<open>deltaT - tau\<close> for heating. Hour \<open>h\<close> of the record lies in day \<open>h div 24\<close>.
\<close>

definition calc_dd :: "(fl \<Rightarrow> fl \<Rightarrow> fl) \<Rightarrow> (nat \<times> fl) list \<Rightarrow> fl \<Rightarrow> fl list" where
  "calc_dd degree core_day_set_deltaT tau =
     (let hourly_dd = map (\<lambda>(h, x). (h, fl_max0 (degree tau x))) core_day_set_deltaT
      in map (\<lambda>d. fl_div (series_sum (map snd (filter (\<lambda>(h, x). h div 24 = d) hourly_dd)))
                           (Fin 24))
             (remdups (map (\<lambda>(h, x). h div 24) hourly_dd)))"

text \<open>\<open>series - array\<close>: the array must have the length of the series, or one element, which
  numpy repeats.\<close>

definition sub_array :: "fl list \<Rightarrow> fl list \<Rightarrow> error + fl list" where
  "sub_array series arr =
     (if length arr = length series then Inr (map (\<lambda>(a, b). fl_sub a b) (zip series arr))
      else if length arr = 1 then Inr (map (\<lambda>a. fl_sub a (arr ! 0)) series)
      else Inl ValueError)"

text \<open>\<open>calc_estimates\<close> (lines 1010-1023 and 1169-1183).\<close>

definition calc_estimates ::
  "(fl \<Rightarrow> fl \<Rightarrow> fl) \<Rightarrow> (nat \<times> fl) list \<Rightarrow> fl list \<Rightarrow> fl \<Rightarrow> error + fl list \<times> fl \<times> fl list"
  where
  "calc_estimates degree core_day_set_deltaT daily_runtime tau =
     (let dd = calc_dd degree core_day_set_deltaT tau;
          total_runtime = series_sum daily_runtime;
          total_dd = np_sum dd;
          alpha_estimate = (if total_dd \<noteq> Fin 0 then fl_div total_runtime total_dd else NaN);
          runtime_estimate = map (\<lambda>c. fl_mul c alpha_estimate) dd
      in case sub_array daily_runtime runtime_estimate of
           Inl e \<Rightarrow> Inl e
         | Inr errors \<Rightarrow> Inr (dd, alpha_estimate, errors))"

text \<open>
  \<open>scipy.optimize.leastsq(func, x0, full_output=1)\<close> with one parameter. It first evaluates
  \<open>func\<close> at \<open>x0\<close>, so what \<open>func\<close> raises there is raised, and it raises \<open>TypeError\<close> when
  the residual vector is shorter than the number of parameters (``Improper input: N=1 must
  not exceed M=0''). The minimisation itself is not modelled: the argument \<open>solver\<close> stands
  for it, and may return any result or raise.
\<close>

record lsq_result =
  lsq_x :: fl
  lsq_cov_x :: "fl list list option"
  lsq_nfev :: nat
  lsq_mesg :: string

type_synonym lsq_solver = "(fl \<Rightarrow> error + fl list) \<Rightarrow> fl \<Rightarrow> error + lsq_result"

definition leastsq :: "lsq_solver \<Rightarrow> (fl \<Rightarrow> error + fl list) \<Rightarrow> fl \<Rightarrow> error + lsq_result" where
  "leastsq solver func x0 =
     (case func x0 of
        Inl e \<Rightarrow> Inl e
      | Inr residuals \<Rightarrow> if 1 > length residuals then Inl TypeError else solver func x0)"

text \<open>The tuple that the demand fitters return; \<open>diagnostics\<close> holds \<open>cov_x\<close>, \<open>nfev\<close> and
  \<open>mesg\<close>, and is \<open>None\<close> where the source returns NaN for the three.\<close>

record demand_result =
  demand :: "fl list"
  tau :: fl
  alpha :: fl
  mse :: fl
  rmse :: fl
  cvrmse :: fl
  mape :: fl
  mae :: fl
  diagnostics :: "(fl list list \<times> nat \<times> string) option"

text \<open>
  The error statistics and the returned tuple (lines 1050-1087 and 1211-1247), from the
  result \<open>y\<close> of the solver and the final estimates. Python's \<open>ZeroDivisionError\<close> is not
  raised by the division of two numpy doubles, so the handler around \<open>cvrmse\<close> is never
  entered. \<open>pd.Series(dd, index=daily_index)\<close> raises when the lengths differ.
\<close>

definition fit_statistics ::
  "lsq_result \<Rightarrow> fl list \<Rightarrow> fl \<Rightarrow> fl list \<Rightarrow> fl list \<Rightarrow> nat list \<Rightarrow> error + demand_result"
  where
  "fit_statistics y dd alpha_estimate errors daily_runtime daily_index =
     (let tau_estimate = lsq_x y;
          mse' = nanmean (map (\<lambda>e. fl_mul e e) errors);
          rmse' = fl_sqrt mse';
          mean_daily_runtime = nanmean daily_runtime;
          cov_x = (case lsq_cov_x y of Some c \<Rightarrow> c | None \<Rightarrow> [[]]);
          cvrmse' = fl_div rmse' mean_daily_runtime;
          mape' = nanmean (map (\<lambda>e. fl_abs (fl_div e mean_daily_runtime)) errors);
          mae' = nanmean (map fl_abs errors)
      in if length dd \<noteq> length daily_index then Inl ValueError
         else Inr \<lparr> demand = dd, tau = tau_estimate, alpha = alpha_estimate,
                    mse = mse', rmse = rmse', cvrmse = cvrmse',
                    mape = mape', mae = mae',
                    diagnostics = Some (cov_x, lsq_nfev y, lsq_mesg y) \<rparr>)"

text \<open>The result for a core day set without days (lines 1036-1048 and 1197-1209).\<close>

definition nan_result :: demand_result where
  "nan_result =
     \<lparr> demand = [], tau = NaN, alpha = NaN, mse = NaN, rmse = NaN,
       cvrmse = NaN, mape = NaN, mae = NaN, diagnostics = None \<rparr>"

text \<open>The solve and what follows it (lines 1025-1087 and 1185-1247), on the selected data.\<close>

definition fit_selected ::
  "lsq_solver \<Rightarrow> (fl \<Rightarrow> fl \<Rightarrow> fl) \<Rightarrow> (nat \<times> fl) list \<Rightarrow> fl list \<Rightarrow> nat list
     \<Rightarrow> error + demand_result" where
  "fit_selected solver degree core_day_set_deltaT daily_runtime daily_index =
     (let estimate_errors =
            (\<lambda>tau_estimate.
               case calc_estimates degree core_day_set_deltaT daily_runtime tau_estimate of
                 Inl e \<Rightarrow> Inl e
               | Inr (_, _, errors) \<Rightarrow> Inr errors);
          tau_starting_guess = Fin 0
      in case leastsq solver estimate_errors tau_starting_guess of
           Inl e \<Rightarrow>
             if e = TypeError then
               (if length daily_runtime = 0 then Inr nan_result else Inl AssertionError)
             else Inl e
         | Inr y \<Rightarrow>
             (case calc_estimates degree core_day_set_deltaT daily_runtime (lsq_x y) of
                Inl e \<Rightarrow> Inl e
              | Inr (dd, alpha_estimate, errors) \<Rightarrow>
                  fit_statistics y dd alpha_estimate errors daily_runtime daily_index))"

text \<open>
  The body that \<open>get_cooling_demand\<close> (lines 991-1087) and \<open>get_heating_demand\<close> (lines
  1150-1247) share; they differ in the runtime series and in the sign of the degrees.
\<close>

definition demand_fit ::
  "lsq_solver \<Rightarrow> (fl \<Rightarrow> fl \<Rightarrow> fl) \<Rightarrow> fl list \<Rightarrow> fl list \<Rightarrow> fl list \<Rightarrow> CoreDaySet
     \<Rightarrow> error + demand_result" where
  "demand_fit solver degree temp_in temp_out runtime_daily core_day_set =
     (case select temp_in (hourly core_day_set) of Inl e \<Rightarrow> Inl e
      | Inr core_day_set_temp_in \<Rightarrow>
     (case select temp_out (hourly core_day_set) of Inl e \<Rightarrow> Inl e
      | Inr core_day_set_temp_out \<Rightarrow>
     (case select runtime_daily (daily core_day_set) of Inl e \<Rightarrow> Inl e
      | Inr selected \<Rightarrow>
          fit_selected solver degree
            (sub_series core_day_set_temp_in core_day_set_temp_out)
            (map snd selected)
            (filter (\<lambda>i. daily core_day_set ! i) [0..<length (daily core_day_set)]))))"

definition get_cooling_demand ::
  "lsq_solver \<Rightarrow> Thermostat \<Rightarrow> CoreDaySet \<Rightarrow> error + demand_result" where
  "get_cooling_demand solver self core_cooling_day_set =
     (case protect_cooling self of Inl e \<Rightarrow> Inl e
      | Inr _ \<Rightarrow>
          demand_fit solver (\<lambda>tau x. fl_sub tau x) (temperature_in self) (temperature_out self)
            (cool_runtime_daily self) core_cooling_day_set)"

definition get_heating_demand ::
  "lsq_solver \<Rightarrow> Thermostat \<Rightarrow> CoreDaySet \<Rightarrow> error + demand_result" where
  "get_heating_demand solver self core_heating_day_set =
     (case protect_heating self of Inl e \<Rightarrow> Inl e
      | Inr _ \<Rightarrow>
          demand_fit solver (\<lambda>tau x. fl_sub x tau) (temperature_in self) (temperature_out self)
            (heat_runtime_daily self) core_heating_day_set)"



text \<open>A core day set over the \<open>n\<close> days of a record, its hourly mask the repetition of the
  daily one.\<close>

definition set_over :: "nat \<Rightarrow> CoreDaySet \<Rightarrow> bool" where
  "set_over n cds =
     (length (daily cds) = n \<and> hourly cds = concat (map (replicate 24) (daily cds)))"

text \<open>The set of the fixtures \<open>core_cooling_day_set_type_1_empty\<close> and
  \<open>core_heating_day_set_type_1_empty\<close>, on the example record: no day is selected.\<close>

definition empty_set :: CoreDaySet where
  "empty_set =
     \<lparr> name = ''empty'', daily = replicate 2 False, hourly = replicate 48 False,
       start_date = Date 2019 6 30, end_date = Date 2019 7 1 \<rparr>"

text \<open>A solver for the examples: it returns its starting point.\<close>

definition example_solver :: lsq_solver where
  "example_solver func x0 =
     Inr \<lparr> lsq_x = x0, lsq_cov_x = None, lsq_nfev = 1, lsq_mesg = ''done'' \<rparr>"




section \<open>Resistance heat utilization (core.py, lines 799-879)\<close>

text \<open>
  A row of the frame \<open>runtime_temp\<close> holds the outdoor temperature and the runtimes of one
  day (or hour); a row of the frame \<open>runtime_rhu\<close> holds the sums over one temperature bin.
\<close>

record runtimes =
  heat_runtime :: fl
  aux_runtime :: fl
  emg_runtime :: fl
  total_minutes :: fl


record runtime_rhu_row = runtimes +
  bin_left :: real
  bin_right :: real
  rhu :: fl
  total_runtime :: fl
  data_is_nonsense :: bool







text \<open>The constants of lines 41-60.\<close>

definition VAR_MIN_RHU_RUNTIME :: int where
  "VAR_MIN_RHU_RUNTIME = 30 * 60"

definition RESISTANCE_HEAT_USE_BIN :: "real list" where
  "RESISTANCE_HEAT_USE_BIN = map (\<lambda>k. real (5 * k)) [0..<13]"




section \<open>Sigmoid fit (core.py, lines 1634-1695)\<close>

text \<open>
  The frame \<open>runtime_rhu\<close>: its index of temperature intervals, and its columns by name, each
  with one value for every interval of the index. The caller's frame is passed by reference;
  the model returns the frame as the call leaves it, next to the returned tuple.
\<close>

record frame =
  index :: "(real \<times> real) list"
  columns :: "(string \<times> fl list) list"

text \<open>Attribute access to a column, \<open>frame.name\<close>: \<open>AttributeError\<close> when there is none.\<close>

definition column :: "frame \<Rightarrow> string \<Rightarrow> error + fl list" where
  "column f nm = (case map_of (columns f) nm of None \<Rightarrow> Inl AttributeError | Some c \<Rightarrow> Inr c)"

text \<open>\<open>frame[name] = values\<close>: replaces the column of that name, or appends a new one.\<close>

definition set_column :: "frame \<Rightarrow> string \<Rightarrow> fl list \<Rightarrow> frame" where
  "set_column f nm vals =
     f \<lparr> columns :=
           (if nm \<in> set (map fst (columns f))
            then map (\<lambda>(k, c). if k = nm then (k, vals) else (k, c)) (columns f)
            else columns f @ [(nm, vals)]) \<rparr>"

text \<open>The rows at the positions that satisfy \<open>keep\<close>.\<close>

definition select_rows :: "frame \<Rightarrow> (nat \<Rightarrow> bool) \<Rightarrow> frame" where
  "select_rows f keep =
     (let pos = filter keep [0..<length (index f)]
      in \<lparr> index = map (\<lambda>i. index f ! i) pos,
            columns = map (\<lambda>(k, c). (k, map (\<lambda>i. c ! i) pos)) (columns f) \<rparr>)"

text \<open>\<open>frame.dropna()\<close>: the rows without a missing value in any column.\<close>

definition dropna_rows :: "frame \<Rightarrow> frame" where
  "dropna_rows f = select_rows f (\<lambda>i. list_all (\<lambda>(k, c). \<not> isnan (c ! i)) (columns f))"

definition mid :: "real \<times> real \<Rightarrow> real" where
  "mid x = (fst x + snd x) / 2"

text \<open>The error function of \<open>scipy.special\<close> is an argument \<open>erf\<close> of the model, extended here
  to the special values.\<close>

fun fl_erf :: "(real \<Rightarrow> real) \<Rightarrow> fl \<Rightarrow> fl" where
  "fl_erf erf (Fin a) = Fin (erf a)"
| "fl_erf erf PInf = Fin 1"
| "fl_erf erf NInf = Fin (- 1)"
| "fl_erf erf NaN = NaN"

text \<open>\<open>0.5 * (1 - erf((temperature - mu) / (sigma * np.sqrt(2))))\<close>.\<close>

definition sigmoid :: "(real \<Rightarrow> real) \<Rightarrow> fl \<Rightarrow> fl \<Rightarrow> real \<Rightarrow> fl" where
  "sigmoid erf mu sigma t =
     fl_mul (Fin (1 / 2))
       (fl_sub (Fin 1)
          (fl_erf erf (fl_div (fl_sub (Fin t) mu) (fl_mul sigma (Fin (sqrt 2))))))"

text \<open>The inner function \<open>calc_estimates\<close> of \<open>fit_sigmoid_model\<close> (lines 1658-1669).\<close>

definition sigmoid_calc_estimates ::
  "(real \<Rightarrow> real) \<Rightarrow> int \<Rightarrow> fl \<times> fl \<Rightarrow> frame \<Rightarrow> error + fl" where
  "sigmoid_calc_estimates erf n_points_threshold parameters runtime_rhu =
     (let mu = fst parameters;
          sigma = snd parameters;
          rhu0 = dropna_rows runtime_rhu
      in case column rhu0 ''n_points'' of Inl e \<Rightarrow> Inl e
         | Inr n_points0 \<Rightarrow>
             (let rhu1 = select_rows rhu0
                           (\<lambda>i. fl_less (Fin (real_of_int n_points_threshold)) (n_points0 ! i));
                  temperatures = map mid (index rhu1);
                  function_fit = map (sigmoid erf mu sigma) temperatures
              in case column rhu1 ''rhu'' of Inl e \<Rightarrow> Inl e
                 | Inr rhu_values \<Rightarrow>
                     (case column rhu1 ''n_points'' of Inl e \<Rightarrow> Inl e
                      | Inr n_points1 \<Rightarrow>
                          (let errors = map (\<lambda>(a, b). fl_mul (fl_sub a b) (fl_sub a b))
                                            (zip function_fit rhu_values)
                           in Inr (fl_sqrt (fl_div (np_sum errors) (series_sum n_points1)))))))"

text \<open>
  \<open>scipy.optimize.least_squares(fun, x0)\<close> with two parameters. It first evaluates \<open>fun\<close>
  at \<open>x0\<close>, so what \<open>fun\<close> raises there is raised, and it raises \<open>ValueError\<close> when that
  value is not finite. The iteration itself is not modelled: the argument \<open>solver\<close> stands
  for it, and may return any parameters or raise.
\<close>

type_synonym ls_solver = "(fl \<times> fl \<Rightarrow> error + fl) \<Rightarrow> fl \<times> fl \<Rightarrow> error + fl \<times> fl"

definition least_squares ::
  "ls_solver \<Rightarrow> (fl \<times> fl \<Rightarrow> error + fl) \<Rightarrow> fl \<times> fl \<Rightarrow> error + fl \<times> fl" where
  "least_squares solver func x0 =
     (case func x0 of
        Inl e \<Rightarrow> Inl e
      | Inr f0 \<Rightarrow> (case f0 of Fin _ \<Rightarrow> solver func x0 | _ \<Rightarrow> Inl ValueError))"

text \<open>The returned tuple \<open>(mu_estimate, sigma_estimate, sigmoid_model_error,
  sigmoid_integral)\<close>; \<open>None\<close> is Python's \<open>None\<close>.\<close>

type_synonym sigmoid_outputs = "fl option \<times> fl option \<times> fl option \<times> fl option"

definition fit_sigmoid_model ::
  "(real \<Rightarrow> real) \<Rightarrow> ls_solver \<Rightarrow> frame \<Rightarrow> int \<Rightarrow> frame \<times> sigmoid_outputs" where
  "fit_sigmoid_model erf solver runtime_rhu n_points_threshold =
     (let initial_parameters = (Fin 30, Fin 5)
      in case least_squares solver
                (\<lambda>p. sigmoid_calc_estimates erf n_points_threshold p runtime_rhu)
                initial_parameters of
           Inl e \<Rightarrow> (runtime_rhu, (None, None, None, None))
         | Inr y \<Rightarrow>
             (let mu_estimate = fst y;
                  sigma_estimate = snd y
              in case sigmoid_calc_estimates erf n_points_threshold y runtime_rhu of
                   Inl e \<Rightarrow> (runtime_rhu, (None, None, None, None))
                 | Inr sigmoid_model_error \<Rightarrow>
                     (let estimated_rhu =
                            map (\<lambda>x. sigmoid erf mu_estimate sigma_estimate (mid x))
                                (index runtime_rhu);
                          runtime_rhu' = set_column runtime_rhu ''estimated_rhu'' estimated_rhu;
                          sigmoid_integral = series_sum estimated_rhu
                      in (runtime_rhu',
                          (Some mu_estimate, Some sigma_estimate,
                           Some sigmoid_model_error, Some sigmoid_integral)))))"

text \<open>Example frames: one with the columns of \<open>get_rh_metrics_daily\<close> and one without the
  column \<open>n_points\<close>; a solver that returns its starting point and one that fails; a
  stand-in for the error function.\<close>

definition example_frame :: frame where
  "example_frame =
     \<lparr> index = [(30, 35), (35, 40)],
       columns = [(''n_points'', [Fin 5, Fin 7]), (''rhu'', [Fin (1 / 2), Fin (1 / 2)])] \<rparr>"

definition bare_frame :: frame where
  "bare_frame = \<lparr> index = [(30, 35)], columns = [(''rhu'', [Fin (1 / 2)])] \<rparr>"

definition fixed_solver :: ls_solver where
  "fixed_solver func x0 = Inr x0"

definition failing_solver :: ls_solver where
  "failing_solver func x0 = Inl SolverError"

definition zero_erf :: "real \<Rightarrow> real" where
  "zero_erf x = 0"

section \<open>Properties\<close>

lemma np_sum_Fin_acc: "foldl fl_add (Fin a) (map Fin xs) = Fin (a + sum_list xs)"
  by (induction xs arbitrary: a) (simp_all add: add.assoc)

lemma np_sum_Fin: "np_sum (map Fin xs) = Fin (sum_list xs)"
  by (simp add: np_sum_def np_sum_Fin_acc)

lemma dropna_Fin: "dropna (map Fin xs) = map Fin xs"
  by (induction xs) (simp_all add: dropna_def)

lemma series_mean_Fin:
  "xs \<noteq> [] \<Longrightarrow> series_mean (map Fin xs) = Fin (sum_list xs / real (length xs))"
  by (simp add: series_mean_def dropna_Fin np_sum_Fin Let_def)

text \<open>
  C1. On series of finite values, \<open>percent_savings\<close> is one hundred times the mean of the
  avoided runtimes divided by the mean of the baseline runtimes: a ratio of the two means.
  The baseline mean is taken non-zero, so that the quotient is a finite number.
\<close>

theorem percent_savings_ratio_of_means:
  assumes "av \<noteq> []" and "bl \<noteq> []" and "sum_list bl \<noteq> 0"
  shows "percent_savings (map Fin av) (map Fin bl) tid =
           Fin (100 * ((sum_list av / real (length av)) / (sum_list bl / real (length bl))))"
  using assms by (simp add: percent_savings_def series_mean_Fin)

text \<open>The literal example: baseline runtimes 100 and 200, avoided runtimes 10 and 20.\<close>

theorem percent_savings_example:
  "percent_savings [Fin 10, Fin 20] [Fin 100, Fin 200] ''t1'' = Fin 10"
  using percent_savings_ratio_of_means [of "[10, 20]" "[100, 200]" "''t1''"] by simp

subsection \<open>Hour of the year\<close>

text \<open>
  C9. The hour-of-year column at 28 February of a leap year: the hours of 2020-02-28 get
  the index of the hours of 27 February (1369 at midnight), not the index that 28 February
  has in a year without a leap day (1393 at midnight, as for 2021-02-28), because the leap
  adjustment starts at day 59 of the year, which is 28 February, and not at day 60.
\<close>

theorem hour_of_year_feb_28_leap:
  "hour_of_year (Timestamp (Date 2020 2 28) 0) = 1369
   \<and> hour_of_year (Timestamp (Date 2020 2 27) 0) = 1369
   \<and> hour_of_year (Timestamp (Date 2021 2 28) 0) = 1393
   \<and> hour_of_year (Timestamp (Date 2020 2 29) 0) = 1393
   \<and> dayofyear (Date 2020 2 28) = 59 \<and> dayofyear (Date 2020 2 29) = 60"
  by code_simp

subsection \<open>Interpolation\<close>

lemma find_SomeD: "List.find P xs = Some x \<Longrightarrow> P x \<and> x \<in> set xs"
  by (induction xs) (auto split: if_splits)

lemma valid_Fin: "finite_or_nan x \<Longrightarrow> valid x \<Longrightarrow> \<exists>r. x = Fin r"
  by (cases x) (simp_all add: finite_or_nan_def valid_def)

lemma prev_valid_Some: "prev_valid ys i = Some l \<Longrightarrow> l < i \<and> valid (ys ! l)"
  unfolding prev_valid_def by (auto dest: find_SomeD)

lemma next_valid_Some:
  "next_valid ys i = Some r \<Longrightarrow> i < r \<and> r < length ys \<and> valid (ys ! r)"
  unfolding next_valid_def by (auto dest: find_SomeD)

lemma prev_valid_None: "prev_valid ys i = None \<Longrightarrow> j < i \<Longrightarrow> \<not> valid (ys ! j)"
  by (auto simp: prev_valid_def find_None_iff)

lemma next_valid_None:
  "next_valid ys i = None \<Longrightarrow> i < j \<Longrightarrow> j < length ys \<Longrightarrow> \<not> valid (ys ! j)"
  by (auto simp: next_valid_def find_None_iff)

text \<open>A missing sample with a valid neighbour is interpolated to a finite value.\<close>

lemma np_interp_Fin:
  assumes fin: "\<forall>x \<in> set ys. finite_or_nan x"
    and i: "i < length ys"
    and nb: "(0 < i \<and> valid (ys ! (i - 1))) \<or> (Suc i < length ys \<and> valid (ys ! Suc i))"
  shows "\<exists>r. np_interp ys i = Fin r"
proof (cases "prev_valid ys i")
  case None
  note pn = None
  show ?thesis
  proof (cases "next_valid ys i")
    case None
    from nb pn None show ?thesis
      using prev_valid_None [of ys i "i - 1"] next_valid_None [of ys i "Suc i"] by auto
  next
    case (Some r)
    then have "r < length ys" "valid (ys ! r)" using next_valid_Some by blast+
    then obtain v where "ys ! r = Fin v" using fin valid_Fin nth_mem by blast
    then show ?thesis using pn Some by (simp add: np_interp_def)
  qed
next
  case (Some l)
  note ps = Some
  then have l: "l < i" "valid (ys ! l)" using prev_valid_Some by blast+
  then have "l < length ys" using i by simp
  then obtain u where u: "ys ! l = Fin u" using fin valid_Fin nth_mem l by blast
  show ?thesis
  proof (cases "next_valid ys i")
    case None
    then show ?thesis using ps u by (simp add: np_interp_def)
  next
    case (Some r)
    then have r: "i < r" "r < length ys" "valid (ys ! r)" using next_valid_Some by blast+
    then obtain v where v: "ys ! r = Fin v" using fin valid_Fin nth_mem by blast
    have "real r - real l \<noteq> 0" using l r by simp
    then show ?thesis using ps Some u v by (simp add: np_interp_def fl_sub_def)
  qed
qed

text \<open>
  C6, as the claim states it, fails: a gap of two consecutive missing samples between two
  valid ones is filled completely by \<open>interpolate\<close>, the first sample from the left and
  the second from the right.
\<close>

theorem interpolate_fills_gap_of_two:
  "interpolate_series [Fin 1, NaN, NaN, Fin 4] ''linear'' = [Fin 1, Fin 2, Fin 3, Fin 4]"
  by code_simp

text \<open>
  C6, amended. In a series of finite and missing samples, a sample is missing after the
  interpolation exactly if it was missing and has no valid sample immediately before it and
  none immediately after it. So a gap of one or two missing samples between valid samples
  is filled completely; in a longer gap, and in a run of missing samples at either end of
  the series, only the samples next to a valid one are filled.
\<close>

theorem interpolate_nan_iff:
  assumes fin: "\<forall>x \<in> set ys. finite_or_nan x" and i: "i < length ys"
  shows "isnan (interpolate_series ys ''linear'' ! i) \<longleftrightarrow>
           isnan (ys ! i) \<and> (i = 0 \<or> isnan (ys ! (i - 1)))
             \<and> (Suc i = length ys \<or> isnan (ys ! Suc i))"
proof -
  have lin: "interpolate_series ys ''linear'' = interpolate ys"
    by (simp add: interpolate_series_def)
  show ?thesis unfolding lin
  proof (cases "list_ex valid ys")
    case False
    then have "\<And>j. j < length ys \<Longrightarrow> isnan (ys ! j)"
      by (auto simp: list_ex_iff valid_def)
    moreover have "interpolate ys ! i = NaN" using False i by (simp add: interpolate_def)
    ultimately show "isnan (interpolate ys ! i) \<longleftrightarrow>
           isnan (ys ! i) \<and> (i = 0 \<or> isnan (ys ! (i - 1)))
             \<and> (Suc i = length ys \<or> isnan (ys ! Suc i))"
      using i by (cases "Suc i = length ys") auto
  next
    case True
    note ex = True
    show "isnan (interpolate ys ! i) \<longleftrightarrow>
           isnan (ys ! i) \<and> (i = 0 \<or> isnan (ys ! (i - 1)))
             \<and> (Suc i = length ys \<or> isnan (ys ! Suc i))"
    proof (cases "list_all valid ys")
      case True
      then have "valid (ys ! i)" using i by (simp add: list_all_iff)
      then show ?thesis using True ex by (simp add: interpolate_def valid_def)
    next
      case False
      have eq: "interpolate ys ! i =
                  (if valid (ys ! i) then ys ! i
                   else if preserve_nans ys i then NaN else np_interp ys i)"
        using False ex i by (simp add: interpolate_def)
      show ?thesis
      proof (cases "valid (ys ! i)")
        case True
        then show ?thesis using eq by (simp add: valid_def)
      next
        case False
        note inv = False
        show ?thesis
        proof (cases "preserve_nans ys i")
          case True
          then show ?thesis using eq inv by (auto simp: preserve_nans_def valid_def)
        next
          case False
          then have nb: "(0 < i \<and> valid (ys ! (i - 1)))
                           \<or> (Suc i < length ys \<and> valid (ys ! Suc i))"
            using inv i by (auto simp: preserve_nans_def)
          from np_interp_Fin [OF fin i nb] obtain r where "np_interp ys i = Fin r" ..
          then have "\<not> isnan (interpolate ys ! i)" using eq inv False by simp
          moreover have "\<not> (isnan (ys ! i) \<and> (i = 0 \<or> isnan (ys ! (i - 1)))
               \<and> (Suc i = length ys \<or> isnan (ys ! Suc i)))"
            using nb by (auto simp: valid_def)
          ultimately show ?thesis by blast
        qed
      qed
    qed
  qed
qed

text \<open>In a gap of three, the middle sample stays missing and the two outer ones are filled.\<close>

theorem interpolate_nan_iff_gap_of_three:
  "isnan (interpolate_series [Fin 1, NaN, NaN, NaN, Fin 5] ''linear'' ! 2)
   \<and> \<not> isnan (interpolate_series [Fin 1, NaN, NaN, NaN, Fin 5] ''linear'' ! 1)
   \<and> \<not> isnan (interpolate_series [Fin 1, NaN, NaN, NaN, Fin 5] ''linear'' ! 3)"
  using interpolate_nan_iff [of "[Fin 1, NaN, NaN, NaN, Fin 5]" 2]
    interpolate_nan_iff [of "[Fin 1, NaN, NaN, NaN, Fin 5]" 1]
    interpolate_nan_iff [of "[Fin 1, NaN, NaN, NaN, Fin 5]" 3]
  by (simp add: finite_or_nan_def)

subsection \<open>Core day sets\<close>

lemma length_concat_replicate: "length (concat (map (replicate n) d)) = n * length d"
  by (induction d) simp_all

lemma concat_replicate_nth:
  "i < 24 * length d \<Longrightarrow> concat (map (replicate 24) d) ! i = d ! (i div 24)"
proof (induction d arbitrary: i)
  case Nil
  then show ?case by simp
next
  case (Cons x d)
  show ?case
  proof (cases "i < 24")
    case True
    then show ?thesis by (simp add: nth_append)
  next
    case False
    then have "i - 24 < 24 * length d" using Cons.prems by simp
    then have "concat (map (replicate 24) d) ! (i - 24) = d ! ((i - 24) div 24)"
      by (rule Cons.IH)
    moreover have "i div 24 = Suc ((i - 24) div 24)" using False by (simp add: le_div_geq)
    ultimately show ?thesis using False by (simp add: nth_append)
  qed
qed

lemma get_hourly_boolean_Inr:
  assumes "get_hourly_boolean d = Inr h"
  shows "length h = 24 * length d \<and> (\<forall>i < length h. h ! i = d ! (i div 24))"
proof -
  from assms have h: "h = concat (map (replicate 24) d)"
    by (auto simp: get_hourly_boolean_def split: if_splits)
  show ?thesis unfolding h by (simp add: length_concat_replicate concat_replicate_nth)
qed

lemma loop_sets:
  "core_day_set_loop idx meets ds de ws = Inr sets \<Longrightarrow> cds \<in> set sets \<Longrightarrow>
     get_hourly_boolean (daily cds) = Inr (hourly cds)
     \<and> (\<exists>nm s e. (nm, s, e) \<in> set ws \<and> name cds = nm
          \<and> start_date cds = date_max s ds \<and> end_date cds = date_min e de
          \<and> daily cds = map (\<lambda>i. get_range_boolean idx (start_date cds) (end_date cds) ! i
                                    \<and> meets ! i) [0..<length idx]
          \<and> list_ex (\<lambda>b. b) (daily cds))"
proof (induction idx meets ds de ws arbitrary: sets rule: core_day_set_loop.induct)
  case (1 idx meets ds de)
  then show ?case by simp
next
  case (2 idx meets ds de nm s e rest)
  let ?start = "date_max s ds" and ?end = "date_min e de"
  let ?in_range = "get_range_boolean idx ?start ?end"
  let ?incl = "map (\<lambda>i. ?in_range ! i \<and> meets ! i) [0..<length idx]"
  from "2.prems"(1) have ok: "\<not> (length ?in_range \<noteq> length meets \<and> length ?in_range \<noteq> 1)"
    by (auto simp: Let_def split: if_splits)
  show ?case
  proof (cases "list_ex (\<lambda>b. b) ?incl")
    case True
    from "2.prems"(1) ok True obtain h sets' where
      h: "get_hourly_boolean ?incl = Inr h"
      and r: "core_day_set_loop idx meets ds de rest = Inr sets'"
      and s: "sets = \<lparr> name = nm, daily = ?incl, hourly = h,
                        start_date = ?start, end_date = ?end \<rparr> # sets'"
      by (auto simp: Let_def split: if_splits sum.splits)
    show ?thesis
    proof (cases "cds \<in> set sets'")
      case True
      from "2.IH"(1) [OF refl refl refl _ refl _ h r True] ok \<open>list_ex (\<lambda>b. b) ?incl\<close>
      show ?thesis by auto
    next
      case False
      with s "2.prems"(2) have "cds = \<lparr> name = nm, daily = ?incl, hourly = h,
                        start_date = ?start, end_date = ?end \<rparr>" by simp
      then show ?thesis using h True by auto
    qed
  next
    case False
    with "2.prems"(1) ok have r: "core_day_set_loop idx meets ds de rest = Inr sets"
      by (auto simp: Let_def split: if_splits)
    from "2.IH"(2) [OF refl refl refl _ refl False r "2.prems"(2)] ok
    show ?thesis by auto
  qed
qed

lemma date_range_length: "length (date_range d n) = n"
  by (induction d n rule: date_range.induct) simp_all

lemma date_range_nth: "i < n \<Longrightarrow> date_range d n ! i = (next_day ^^ i) d"
proof (induction d n arbitrary: i rule: date_range.induct)
  case (1 d)
  then show ?case by simp
next
  case (2 d n)
  then show ?case by (cases i) (simp_all add: funpow_swap1)
qed

lemma and_series_length: "length (and_series xs ys) = max (length xs) (length ys)"
  by (simp add: and_series_def)

lemma and_series_nth:
  "i < max (length xs) (length ys) \<Longrightarrow>
     and_series xs ys ! i = (i < length xs \<and> xs ! i \<and> i < length ys \<and> ys ! i)"
  by (auto simp: and_series_def)

lemma enough_temp_length: "length (enough_temp s) = (length s + 23) div 24"
  by (simp add: enough_temp_def chunks24_def)

lemma enough_temp_nth:
  "i < (length s + 23) div 24 \<Longrightarrow> enough_temp s ! i = (missing_on_day s i \<le> 2)"
  by (simp add: enough_temp_def chunks24_def missing_on_day_def)

lemma get_range_boolean_nth:
  "i < length idx \<Longrightarrow>
     get_range_boolean idx s e ! i = (date_le s (idx ! i) \<and> date_less (idx ! i) e)"
  by (simp add: get_range_boolean_def)

lemma meets_nth:
  assumes "length tin = 24 * n" and "length tout = 24 * n" and "length prim = n"
    and "sec_on \<longrightarrow> length sec = n" and "i < n"
  shows "and_series (if sec_on then and_series prim sec else prim)
           (and_series (enough_temp tin) (enough_temp tout)) ! i
         = (prim ! i \<and> (sec_on \<longrightarrow> sec ! i)
             \<and> missing_on_day tin i \<le> 2 \<and> missing_on_day tout i \<le> 2)"
    and "length (and_series (if sec_on then and_series prim sec else prim)
           (and_series (enough_temp tin) (enough_temp tout))) = n"
proof -
  have len: "(length tin + 23) div 24 = n" "(length tout + 23) div 24 = n"
    using assms by simp_all
  have e: "length (and_series (enough_temp tin) (enough_temp tout)) = n"
    by (simp add: and_series_length enough_temp_length len)
  have p: "length (if sec_on then and_series prim sec else prim) = n"
    using assms by (simp add: and_series_length)
  show "length (and_series (if sec_on then and_series prim sec else prim)
           (and_series (enough_temp tin) (enough_temp tout))) = n"
    using p by (simp add: and_series_length enough_temp_length len)
  have e_i: "and_series (enough_temp tin) (enough_temp tout) ! i
               = (missing_on_day tin i \<le> 2 \<and> missing_on_day tout i \<le> 2)"
    using assms(5) by (simp add: and_series_nth enough_temp_length enough_temp_nth len)
  have p_i: "(if sec_on then and_series prim sec else prim) ! i
               = (prim ! i \<and> (sec_on \<longrightarrow> sec ! i))"
    using assms by (simp add: and_series_nth)
  have "i < max (length (if sec_on then and_series prim sec else prim))
                (length (and_series (enough_temp tin) (enough_temp tout)))"
    using assms(5) p e by simp
  from and_series_nth [OF this]
  show "and_series (if sec_on then and_series prim sec else prim)
           (and_series (enough_temp tin) (enough_temp tout)) ! i
         = (prim ! i \<and> (sec_on \<longrightarrow> sec ! i)
             \<and> missing_on_day tin i \<le> 2 \<and> missing_on_day tout i \<le> 2)"
    using assms(5) p e e_i p_i by auto
qed

lemma heating_unfold:
  assumes "get_core_heating_days self method mn mx = Inr sets"
  shows "has_heating self \<and> heat_runtime_daily self \<noteq> []
         \<and> (method = ''year_mid_to_mid'' \<or> method = ''entire_dataset'')
         \<and> (let idx = date_range (first_day self) (length (heat_runtime_daily self)) in
            if method = ''year_mid_to_mid'' then
              (\<exists>ws. core_day_set_loop idx (heating_mask self mn mx) (hd idx) (last idx) ws = Inr sets)
            else entire_dataset_set ''heating_ALL'' idx (heating_mask self mn mx) (hd idx) (last idx)
                   = Inr sets)"
proof -
  have m: "method = ''year_mid_to_mid'' \<or> method = ''entire_dataset''"
    using assms by (auto simp: get_core_heating_days_def split: if_splits)
  have h: "has_heating self"
    using assms m by (auto simp: get_core_heating_days_def protect_heating_def split: if_splits)
  have ne: "date_range (first_day self) (length (heat_runtime_daily self)) \<noteq> []"
    using assms m h
    by (auto simp: get_core_heating_days_def protect_heating_def Let_def split: if_splits)
  then have ne': "heat_runtime_daily self \<noteq> []" by (cases "heat_runtime_daily self") auto
  show ?thesis
  proof (cases "method = ''year_mid_to_mid''")
    case True
    then show ?thesis using assms h ne ne' m
      unfolding get_core_heating_days_def protect_heating_def heating_mask_def Let_def
      by (auto simp del: date_range.simps)
  next
    case False
    then show ?thesis using assms h ne ne' m
      unfolding get_core_heating_days_def protect_heating_def heating_mask_def Let_def
      by (auto simp del: date_range.simps)
  qed
qed

lemma cooling_unfold:
  assumes "get_core_cooling_days self method mn mx = Inr sets"
  shows "has_cooling self \<and> cool_runtime_daily self \<noteq> []
         \<and> (method = ''year_end_to_end'' \<or> method = ''entire_dataset'')
         \<and> (let idx = date_range (first_day self) (length (cool_runtime_daily self)) in
            if method = ''year_end_to_end'' then
              (\<exists>ws. core_day_set_loop idx (cooling_mask self mn mx) (hd idx) (last idx) ws = Inr sets)
            else entire_dataset_set ''cooling_ALL'' idx (cooling_mask self mn mx) (hd idx) (last idx)
                   = Inr sets)"
proof -
  have m: "method = ''year_end_to_end'' \<or> method = ''entire_dataset''"
    using assms by (auto simp: get_core_cooling_days_def split: if_splits)
  have h: "has_cooling self"
    using assms m by (auto simp: get_core_cooling_days_def protect_cooling_def split: if_splits)
  have ne: "date_range (first_day self) (length (cool_runtime_daily self)) \<noteq> []"
    using assms m h
    by (auto simp: get_core_cooling_days_def protect_cooling_def Let_def split: if_splits)
  then have ne': "cool_runtime_daily self \<noteq> []" by (cases "cool_runtime_daily self") auto
  show ?thesis
  proof (cases "method = ''year_end_to_end''")
    case True
    then show ?thesis using assms h ne ne' m
      unfolding get_core_cooling_days_def protect_cooling_def cooling_mask_def Let_def
      by (auto simp del: date_range.simps)
  next
    case False
    then show ?thesis using assms h ne ne' m
      unfolding get_core_cooling_days_def protect_cooling_def cooling_mask_def Let_def
      by (auto simp del: date_range.simps)
  qed
qed

lemma entire_dataset_sets:
  assumes "entire_dataset_set nm idx meets ds de = Inr sets" and "cds \<in> set sets"
  shows "get_hourly_boolean (daily cds) = Inr (hourly cds)
         \<and> daily cds = map (\<lambda>i. meets ! i) [0..<length idx]
         \<and> sets = [cds]"
  using assms by (auto simp: entire_dataset_set_def Let_def split: sum.splits)

lemma detected_sets:
  assumes "if period then (\<exists>ws. core_day_set_loop idx meets ds de ws = Inr sets)
           else entire_dataset_set nm idx meets ds de = Inr sets"
    and "cds \<in> set sets"
  shows "get_hourly_boolean (daily cds) = Inr (hourly cds)"
    and "length (daily cds) = length idx"
    and "i < length idx \<Longrightarrow>
           daily cds ! i = ((period \<longrightarrow> in_window cds (idx ! i)) \<and> meets ! i)"
proof -
  have "get_hourly_boolean (daily cds) = Inr (hourly cds)
        \<and> daily cds = map (\<lambda>i. (period \<longrightarrow> in_window cds (idx ! i)) \<and> meets ! i)
                         [0..<length idx]"
  proof (cases period)
    case True
    with assms(1) obtain ws where "core_day_set_loop idx meets ds de ws = Inr sets" by auto
    from loop_sets [OF this assms(2)]
    have h: "get_hourly_boolean (daily cds) = Inr (hourly cds)"
      and d: "daily cds = map (\<lambda>i. get_range_boolean idx (start_date cds) (end_date cds) ! i
                                    \<and> meets ! i) [0..<length idx]"
      by auto
    have "map (\<lambda>i. get_range_boolean idx (start_date cds) (end_date cds) ! i \<and> meets ! i)
              [0..<length idx]
          = map (\<lambda>i. (period \<longrightarrow> in_window cds (idx ! i)) \<and> meets ! i) [0..<length idx]"
      using True by (simp add: get_range_boolean_nth in_window_def)
    with h d show ?thesis by simp
  next
    case False
    with assms(1) have "entire_dataset_set nm idx meets ds de = Inr sets" by simp
    from entire_dataset_sets [OF this assms(2)]
    have a: "get_hourly_boolean (daily cds) = Inr (hourly cds)"
      and b: "daily cds = map (\<lambda>i. meets ! i) [0..<length idx]" by blast+
    show ?thesis
    proof (intro conjI)
      show "get_hourly_boolean (daily cds) = Inr (hourly cds)" by (rule a)
      show "daily cds = map (\<lambda>i. (period \<longrightarrow> in_window cds (idx ! i)) \<and> meets ! i)
                         [0..<length idx]"
        using b False by simp
    qed
  qed
  then have a: "get_hourly_boolean (daily cds) = Inr (hourly cds)"
    and b: "daily cds = map (\<lambda>i. (period \<longrightarrow> in_window cds (idx ! i)) \<and> meets ! i)
                         [0..<length idx]"
    by blast+
  show "get_hourly_boolean (daily cds) = Inr (hourly cds)" by (rule a)
  show "length (daily cds) = length idx" by (subst b) simp
  show "i < length idx \<Longrightarrow>
           daily cds ! i = ((period \<longrightarrow> in_window cds (idx ! i)) \<and> meets ! i)"
    by (subst b) simp
qed

lemma and_series_commute: "and_series xs ys = and_series ys xs"
  by (auto simp: and_series_def max.commute)

text \<open>
  C4. In every core day set that \<open>get_core_heating_days\<close> or \<open>get_core_cooling_days\<close>
  returns, the hourly mask is 24 times as long as the daily mask, and hour \<open>h\<close> has the
  value of day \<open>h div 24\<close>: every hour of an included day is included, every hour of an
  excluded day is excluded.
\<close>

theorem hourly_is_broadcast_of_daily:
  assumes "get_core_heating_days self method mn mx = Inr sets
           \<or> get_core_cooling_days self method mn mx = Inr sets"
    and "cds \<in> set sets"
  shows "length (hourly cds) = 24 * length (daily cds)
         \<and> (\<forall>h < length (hourly cds). hourly cds ! h = daily cds ! (h div 24))"
proof -
  have "get_hourly_boolean (daily cds) = Inr (hourly cds)"
    using assms(1)
  proof
    assume "get_core_heating_days self method mn mx = Inr sets"
    from heating_unfold [OF this]
    have "if method = ''year_mid_to_mid'' then
            (\<exists>ws. core_day_set_loop
                    (date_range (first_day self) (length (heat_runtime_daily self)))
                    (heating_mask self mn mx)
                    (hd (date_range (first_day self) (length (heat_runtime_daily self))))
                    (last (date_range (first_day self) (length (heat_runtime_daily self)))) ws
                  = Inr sets)
          else entire_dataset_set ''heating_ALL''
                 (date_range (first_day self) (length (heat_runtime_daily self)))
                 (heating_mask self mn mx)
                 (hd (date_range (first_day self) (length (heat_runtime_daily self))))
                 (last (date_range (first_day self) (length (heat_runtime_daily self))))
               = Inr sets"
      by (simp add: Let_def)
    from detected_sets(1) [OF this assms(2)] show ?thesis .
  next
    assume "get_core_cooling_days self method mn mx = Inr sets"
    from cooling_unfold [OF this]
    have "if method = ''year_end_to_end'' then
            (\<exists>ws. core_day_set_loop
                    (date_range (first_day self) (length (cool_runtime_daily self)))
                    (cooling_mask self mn mx)
                    (hd (date_range (first_day self) (length (cool_runtime_daily self))))
                    (last (date_range (first_day self) (length (cool_runtime_daily self)))) ws
                  = Inr sets)
          else entire_dataset_set ''cooling_ALL''
                 (date_range (first_day self) (length (cool_runtime_daily self)))
                 (cooling_mask self mn mx)
                 (hd (date_range (first_day self) (length (cool_runtime_daily self))))
                 (last (date_range (first_day self) (length (cool_runtime_daily self))))
               = Inr sets"
      by (simp add: Let_def)
    from detected_sets(1) [OF this assms(2)] show ?thesis .
  qed
  then show ?thesis by (rule get_hourly_boolean_Inr)
qed

lemma core_day_iff_heating:
  assumes get: "get_core_heating_days self method mn mx = Inr sets"
    and cds: "cds \<in> set sets" and al: "aligned self"
    and i: "i < length (heat_runtime_daily self)"
  shows "daily cds ! i \<longleftrightarrow>
           fl_le (Fin (real_of_int mn)) (heat_runtime_daily self ! i)
           \<and> (has_cooling self \<longrightarrow> fl_le (cool_runtime_daily self ! i) (Fin (real_of_int mx)))
           \<and> missing_on_day (temperature_in self) i \<le> 2
           \<and> missing_on_day (temperature_out self) i \<le> 2
           \<and> (method = ''year_mid_to_mid'' \<longrightarrow> in_window cds (day_date self i))"
proof -
  let ?n = "length (heat_runtime_daily self)"
  let ?idx = "date_range (first_day self) ?n"
  from heating_unfold [OF get] have hh: "has_heating self"
    and u: "if method = ''year_mid_to_mid'' then
              (\<exists>ws. core_day_set_loop ?idx (heating_mask self mn mx) (hd ?idx) (last ?idx) ws
                      = Inr sets)
            else entire_dataset_set ''heating_ALL'' ?idx (heating_mask self mn mx)
                   (hd ?idx) (last ?idx) = Inr sets"
    by (simp_all add: Let_def)
  have i': "i < length ?idx" using i by (simp add: date_range_length)
  from detected_sets(3) [OF u cds i']
  have d: "daily cds ! i = ((method = ''year_mid_to_mid'' \<longrightarrow> in_window cds (?idx ! i))
                             \<and> heating_mask self mn mx ! i)" .
  have idx: "?idx ! i = day_date self i" using i by (simp add: date_range_nth day_date_def)
  have tin: "length (temperature_in self) = 24 * ?n"
    and tout: "length (temperature_out self) = 24 * ?n"
    and sec: "has_cooling self \<longrightarrow>
                length (map (\<lambda>r. fl_le r (Fin (real_of_int mx))) (cool_runtime_daily self)) = ?n"
    using al hh by (auto simp: aligned_def)
  have prim: "length (map (\<lambda>r. fl_le (Fin (real_of_int mn)) r) (heat_runtime_daily self)) = ?n"
    by simp
  have ci: "has_cooling self \<Longrightarrow> i < length (cool_runtime_daily self)"
    using sec i by simp
  from meets_nth(1) [OF tin tout prim sec i]
  have "heating_mask self mn mx ! i =
          (fl_le (Fin (real_of_int mn)) (heat_runtime_daily self ! i)
           \<and> (has_cooling self \<longrightarrow> fl_le (cool_runtime_daily self ! i) (Fin (real_of_int mx)))
           \<and> missing_on_day (temperature_in self) i \<le> 2
           \<and> missing_on_day (temperature_out self) i \<le> 2)"
    unfolding heating_mask_def using i ci by auto
  with d idx show ?thesis by auto
qed

lemma core_day_iff_cooling:
  assumes get: "get_core_cooling_days self method mn mx = Inr sets"
    and cds: "cds \<in> set sets" and al: "aligned self"
    and i: "i < length (cool_runtime_daily self)"
  shows "daily cds ! i \<longleftrightarrow>
           fl_le (Fin (real_of_int mn)) (cool_runtime_daily self ! i)
           \<and> (has_heating self \<longrightarrow> fl_le (heat_runtime_daily self ! i) (Fin (real_of_int mx)))
           \<and> missing_on_day (temperature_in self) i \<le> 2
           \<and> missing_on_day (temperature_out self) i \<le> 2
           \<and> (method = ''year_end_to_end'' \<longrightarrow> in_window cds (day_date self i))"
proof -
  let ?n = "length (cool_runtime_daily self)"
  let ?idx = "date_range (first_day self) ?n"
  from cooling_unfold [OF get] have hh: "has_cooling self"
    and u: "if method = ''year_end_to_end'' then
              (\<exists>ws. core_day_set_loop ?idx (cooling_mask self mn mx) (hd ?idx) (last ?idx) ws
                      = Inr sets)
            else entire_dataset_set ''cooling_ALL'' ?idx (cooling_mask self mn mx)
                   (hd ?idx) (last ?idx) = Inr sets"
    by (simp_all add: Let_def)
  have i': "i < length ?idx" using i by (simp add: date_range_length)
  from detected_sets(3) [OF u cds i']
  have d: "daily cds ! i = ((method = ''year_end_to_end'' \<longrightarrow> in_window cds (?idx ! i))
                             \<and> cooling_mask self mn mx ! i)" .
  have idx: "?idx ! i = day_date self i" using i by (simp add: date_range_nth day_date_def)
  have tin: "length (temperature_in self) = 24 * ?n"
    and tout: "length (temperature_out self) = 24 * ?n"
    and sec: "has_heating self \<longrightarrow>
                length (map (\<lambda>r. fl_le r (Fin (real_of_int mx))) (heat_runtime_daily self)) = ?n"
    using al hh by (auto simp: aligned_def)
  have prim: "length (map (\<lambda>r. fl_le (Fin (real_of_int mn)) r) (cool_runtime_daily self)) = ?n"
    by simp
  have ci: "has_heating self \<Longrightarrow> i < length (heat_runtime_daily self)"
    using sec i by simp
  have mask: "cooling_mask self mn mx =
     and_series
       (if has_heating self then
          and_series (map (\<lambda>r. fl_le (Fin (real_of_int mn)) r) (cool_runtime_daily self))
                     (map (\<lambda>r. fl_le r (Fin (real_of_int mx))) (heat_runtime_daily self))
        else map (\<lambda>r. fl_le (Fin (real_of_int mn)) r) (cool_runtime_daily self))
       (and_series (enough_temp (temperature_in self)) (enough_temp (temperature_out self)))"
    unfolding cooling_mask_def
    using and_series_commute
            [of "map (\<lambda>r. fl_le r (Fin (real_of_int mx))) (heat_runtime_daily self)"]
    by simp
  from meets_nth(1) [OF tin tout prim sec i]
  have "cooling_mask self mn mx ! i =
          (fl_le (Fin (real_of_int mn)) (cool_runtime_daily self ! i)
           \<and> (has_heating self \<longrightarrow> fl_le (heat_runtime_daily self ! i) (Fin (real_of_int mx)))
           \<and> missing_on_day (temperature_in self) i \<le> 2
           \<and> missing_on_day (temperature_out self) i \<le> 2)"
    unfolding mask using i ci by auto
  with d idx show ?thesis by auto
qed

text \<open>
  What the methods compute. In a core day set returned for an aligned record, a day is
  included exactly if its primary runtime is at least the minimum, its secondary runtime is
  at most the maximum (not tested when the thermostat lacks the secondary mode), the indoor
  and the outdoor temperature each have at most two missing hourly readings on that day,
  and, for the methods by period, the day lies between the start date and the end date that
  the returned set carries. A missing daily runtime fails its comparison. The end date of
  a set is the end of its period or the last day of the data, whichever is earlier, and the
  day of the end date is not included.
\<close>

lemma core_day_inclusion:
  assumes "aligned self" and "cds \<in> set sets"
  shows "(get_core_heating_days self method mn mx = Inr sets \<longrightarrow>
            (\<forall>i < length (heat_runtime_daily self).
               daily cds ! i \<longleftrightarrow>
                 fl_le (Fin (real_of_int mn)) (heat_runtime_daily self ! i)
                 \<and> (has_cooling self \<longrightarrow>
                      fl_le (cool_runtime_daily self ! i) (Fin (real_of_int mx)))
                 \<and> missing_on_day (temperature_in self) i \<le> 2
                 \<and> missing_on_day (temperature_out self) i \<le> 2
                 \<and> (method = ''year_mid_to_mid'' \<longrightarrow> in_window cds (day_date self i))))
       \<and> (get_core_cooling_days self method mn mx = Inr sets \<longrightarrow>
            (\<forall>i < length (cool_runtime_daily self).
               daily cds ! i \<longleftrightarrow>
                 fl_le (Fin (real_of_int mn)) (cool_runtime_daily self ! i)
                 \<and> (has_heating self \<longrightarrow>
                      fl_le (heat_runtime_daily self ! i) (Fin (real_of_int mx)))
                 \<and> missing_on_day (temperature_in self) i \<le> 2
                 \<and> missing_on_day (temperature_out self) i \<le> 2
                 \<and> (method = ''year_end_to_end'' \<longrightarrow> in_window cds (day_date self i))))"
  using core_day_iff_heating [OF _ assms(2) assms(1)] core_day_iff_cooling [OF _ assms(2) assms(1)]
  by blast

text \<open>In the example record the first day is a core heating day, the second is not.\<close>

lemma core_day_inclusion_example:
  "aligned example_record
   \<and> get_core_heating_days example_record ''year_mid_to_mid'' 30 0 = Inr [example_set]
   \<and> daily example_set ! 0 \<and> \<not> daily example_set ! 1"
proof -
  let ?rhs = "\<lambda>i. fl_le (Fin (real_of_int 30)) (heat_runtime_daily example_record ! i)
                 \<and> (has_cooling example_record \<longrightarrow>
                      fl_le (cool_runtime_daily example_record ! i) (Fin (real_of_int 0)))
                 \<and> missing_on_day (temperature_in example_record) i \<le> 2
                 \<and> missing_on_day (temperature_out example_record) i \<le> 2
                 \<and> (''year_mid_to_mid'' = ''year_mid_to_mid''
                      \<longrightarrow> in_window example_set (day_date example_record i))"
  have al: "aligned example_record" by code_simp
  have get: "get_core_heating_days example_record ''year_mid_to_mid'' 30 0 = Inr [example_set]"
    by code_simp
  have len: "0 < length (heat_runtime_daily example_record)"
    "1 < length (heat_runtime_daily example_record)" by code_simp+
  have r0: "?rhs 0" by code_simp
  have r1: "\<not> ?rhs 1" by code_simp
  have "example_set \<in> set [example_set]" by simp
  from core_day_inclusion [OF al this, of "''year_mid_to_mid''" 30 0] get
  have "\<forall>i < length (heat_runtime_daily example_record). daily example_set ! i \<longleftrightarrow> ?rhs i"
    by blast
  with len r0 r1 have "daily example_set ! 0" and "\<not> daily example_set ! 1" by blast+
  with al get show ?thesis by blast
qed

lemma date_less_irrefl: "\<not> date_less d d"
  by (simp add: date_less_def)

lemma date_less_asym: "date_less a b \<Longrightarrow> \<not> date_less b a"
  by (auto simp: date_less_def)

lemma not_before_clipped_end: "\<not> date_less d (date_min e d)"
  using date_less_irrefl date_less_asym by (simp add: date_min_def)

text \<open>The methods by period never include the last day of the data: the window of every
  set is cut at that day, and its end is exclusive.\<close>

lemma loop_drops_last_day:
  assumes loop: "core_day_set_loop idx meets ds (last idx) ws = Inr sets"
    and cds: "cds \<in> set sets" and ne: "idx \<noteq> []"
  shows "daily cds \<noteq> [] \<and> \<not> last (daily cds)"
proof -
  from loop_sets [OF loop cds] obtain e where
    e: "end_date cds = date_min e (last idx)"
    and d: "daily cds = map (\<lambda>i. get_range_boolean idx (start_date cds) (end_date cds) ! i
                                    \<and> meets ! i) [0..<length idx]"
    by blast
  let ?k = "length idx - 1"
  have k: "?k < length idx" using ne by simp
  have len: "length (daily cds) = length idx" by (subst d) simp
  then have ne': "daily cds \<noteq> []" using ne by auto
  have "last (daily cds) = daily cds ! ?k" using ne' len by (simp add: last_conv_nth)
  also have "\<dots> = (get_range_boolean idx (start_date cds) (end_date cds) ! ?k \<and> meets ! ?k)"
    using k by (subst d) simp
  also have "get_range_boolean idx (start_date cds) (end_date cds) ! ?k
             = (date_le (start_date cds) (idx ! ?k) \<and> date_less (idx ! ?k) (end_date cds))"
    using k by (rule get_range_boolean_nth)
  also have "idx ! ?k = last idx" using ne by (simp add: last_conv_nth)
  finally have "last (daily cds) =
      ((date_le (start_date cds) (last idx) \<and> date_less (last idx) (end_date cds)) \<and> meets ! ?k)" .
  then show ?thesis using ne' not_before_clipped_end [of "last idx" e] e by simp
qed

lemma period_methods_drop_last_day:
  assumes "get_core_heating_days self ''year_mid_to_mid'' mn mx = Inr sets
           \<or> get_core_cooling_days self ''year_end_to_end'' mn mx = Inr sets"
    and cds: "cds \<in> set sets"
  shows "daily cds \<noteq> [] \<and> \<not> last (daily cds)"
  using assms(1)
proof
  assume g: "get_core_heating_days self ''year_mid_to_mid'' mn mx = Inr sets"
  let ?idx = "date_range (first_day self) (length (heat_runtime_daily self))"
  from heating_unfold [OF g] obtain ws where
    "core_day_set_loop ?idx (heating_mask self mn mx) (hd ?idx) (last ?idx) ws = Inr sets"
    and "heat_runtime_daily self \<noteq> []"
    by (auto simp: Let_def)
  moreover from this(2) have "?idx \<noteq> []" by (cases "heat_runtime_daily self") auto
  ultimately show ?thesis using cds by (intro loop_drops_last_day)
next
  assume g: "get_core_cooling_days self ''year_end_to_end'' mn mx = Inr sets"
  let ?idx = "date_range (first_day self) (length (cool_runtime_daily self))"
  from cooling_unfold [OF g] obtain ws where
    "core_day_set_loop ?idx (cooling_mask self mn mx) (hd ?idx) (last ?idx) ws = Inr sets"
    and "cool_runtime_daily self \<noteq> []"
    by (auto simp: Let_def)
  moreover from this(2) have "?idx \<noteq> []" by (cases "cool_runtime_daily self") auto
  ultimately show ?thesis using cds by (intro loop_drops_last_day)
qed

text \<open>
  C5. On the record of three days, 10 to 12 January 2019, every day has 45 minutes or more
  of heating runtime, complete temperatures and no cooling equipment, and lies in the
  period from 1 July 2018 to 1 July 2019. The method \<open>entire_dataset\<close> includes the three
  days. The method \<open>year_mid_to_mid\<close> leaves out 12 January, the last day of the data,
  although the day meets every condition and lies in the period: the end of the window is
  cut to the last day of the data and compared strictly.
\<close>

theorem last_day_of_data_dropped:
  "get_core_heating_days three_day_record ''year_mid_to_mid'' 30 0
     = Inr [\<lparr> name = ''heating_2018-2019'', daily = [True, True, False],
               hourly = replicate 48 True @ replicate 24 False,
               start_date = Date 2019 1 10, end_date = Date 2019 1 12 \<rparr>]
   \<and> get_core_heating_days three_day_record ''entire_dataset'' 30 0
     = Inr [\<lparr> name = ''heating_ALL'', daily = [True, True, True],
               hourly = replicate 72 True,
               start_date = Date 2019 1 10, end_date = Date 2019 1 12 \<rparr>]
   \<and> day_date three_day_record 2 = Date 2019 1 12
   \<and> fl_le (Fin 30) (heat_runtime_daily three_day_record ! 2)
   \<and> \<not> has_cooling three_day_record
   \<and> missing_on_day (temperature_in three_day_record) 2 = 0
   \<and> missing_on_day (temperature_out three_day_record) 2 = 0
   \<and> date_le (Date 2018 7 1) (Date 2019 1 12) \<and> date_less (Date 2019 1 12) (Date 2019 7 1)"
  by code_simp

text \<open>
  C3, as the claim states it, fails: on a record with zero-length runtime series no method
  returns an empty list or a set with empty masks. Both methods of both modes raise
  \<open>IndexError\<close> when they read the first date of the empty daily index, and the constructor
  refuses such input with \<open>ValueError\<close> in the first place.
\<close>

theorem detection_on_empty_record:
  "get_core_heating_days empty_record ''year_mid_to_mid'' 30 0 = Inl IndexError
   \<and> get_core_heating_days empty_record ''entire_dataset'' 30 0 = Inl IndexError
   \<and> get_core_cooling_days empty_record ''year_end_to_end'' 30 0 = Inl IndexError
   \<and> get_core_cooling_days empty_record ''entire_dataset'' 30 0 = Inl IndexError
   \<and> Thermostat_init ''t0'' True True False False False (Date 2019 1 1) [] []
        (Some []) (Some []) None None = Inl ValueError"
  by code_simp

lemma chunks24_nonempty: "xs \<noteq> [] \<Longrightarrow> 0 < (length xs + 23) div 24"
proof -
  assume "xs \<noteq> []"
  then have "24 \<le> length xs + 23" by (cases xs) simp_all
  then show ?thesis by (simp add: div_greater_zero_iff)
qed

lemma resample_daily_empty: "resample_daily s = [] \<longleftrightarrow> s = None \<or> s = Some []"
  by (cases s) (auto simp: resample_daily_def chunks24_def chunks24_nonempty)

text \<open>
  C3, amended. With a zero-length daily runtime series of its mode, core day set detection
  raises for every method: \<open>NotImplementedError\<close> for an unknown method, \<open>ValueError\<close>
  when the thermostat lacks the mode, \<open>IndexError\<close> otherwise. The constructor raises
  \<open>ValueError\<close> when the equipment has a mode whose runtime series is absent or empty.
\<close>

theorem detection_raises_on_empty_runtime:
  "(heat_runtime_daily self = [] \<longrightarrow>
      get_core_heating_days self method mn mx =
        Inl (if method \<notin> set [''year_mid_to_mid'', ''entire_dataset''] then NotImplementedError
             else if \<not> has_heating self then ValueError else IndexError))
   \<and> (cool_runtime_daily self = [] \<longrightarrow>
      get_core_cooling_days self method mn mx =
        Inl (if method \<notin> set [''year_end_to_end'', ''entire_dataset''] then NotImplementedError
             else if \<not> has_cooling self then ValueError else IndexError))
   \<and> ((heating \<and> (heat_input = None \<or> heat_input = Some []))
        \<or> (cooling \<and> (cool_input = None \<or> cool_input = Some [])) \<longrightarrow>
      Thermostat_init tid cooling heating auxiliary emergency resistance_heat day0
        temp_in temp_out cool_input heat_input aux_input emg_input = Inl ValueError)"
proof (intro conjI impI)
  assume "heat_runtime_daily self = []"
  then show "get_core_heating_days self method mn mx =
        Inl (if method \<notin> set [''year_mid_to_mid'', ''entire_dataset''] then NotImplementedError
             else if \<not> has_heating self then ValueError else IndexError)"
    by (simp add: get_core_heating_days_def protect_heating_def Let_def)
next
  assume "cool_runtime_daily self = []"
  then show "get_core_cooling_days self method mn mx =
        Inl (if method \<notin> set [''year_end_to_end'', ''entire_dataset''] then NotImplementedError
             else if \<not> has_cooling self then ValueError else IndexError)"
    by (simp add: get_core_cooling_days_def protect_cooling_def Let_def)
next
  assume "(heating \<and> (heat_input = None \<or> heat_input = Some []))
        \<or> (cooling \<and> (cool_input = None \<or> cool_input = Some []))"
  then have "(heating \<and> resample_daily heat_input = [])
             \<or> (cooling \<and> resample_daily cool_input = [])"
    by (simp add: resample_daily_empty)
  then show "Thermostat_init tid cooling heating auxiliary emergency resistance_heat day0
        temp_in temp_out cool_input heat_input aux_input emg_input = Inl ValueError"
    by (auto simp: Thermostat_init_def validate_def validate_heating_def validate_cooling_def
             Let_def split: sum.splits)
qed

text \<open>The empty record, with and without the heating capability.\<close>

theorem detection_raises_on_empty_runtime_example:
  "heat_runtime_daily empty_record = []
   \<and> get_core_heating_days empty_record ''entire_dataset'' 30 0 = Inl IndexError
   \<and> get_core_heating_days (empty_record\<lparr>has_heating := False\<rparr>) ''entire_dataset'' 30 0
       = Inl ValueError"
  using detection_raises_on_empty_runtime [of empty_record "''entire_dataset''" 30 0]
    detection_raises_on_empty_runtime [of "empty_record\<lparr>has_heating := False\<rparr>" "''entire_dataset''" 30 0]
  by (simp add: empty_record_def)

text \<open>The set detected in the example record.\<close>

theorem hourly_is_broadcast_of_daily_example:
  "get_core_heating_days example_record ''year_mid_to_mid'' 30 0 = Inr [example_set]
   \<and> length (hourly example_set) = 24 * length (daily example_set)
   \<and> hourly example_set ! 30 = daily example_set ! 1"
proof -
  have get: "get_core_heating_days example_record ''year_mid_to_mid'' 30 0 = Inr [example_set]"
    by code_simp
  have len: "30 < length (hourly example_set)" by code_simp
  have "example_set \<in> set [example_set]" by simp
  from hourly_is_broadcast_of_daily [OF disjI1 [OF get] this] len
  have "length (hourly example_set) = 24 * length (daily example_set)"
    and "hourly example_set ! 30 = daily example_set ! (30 div 24)" by blast+
  with get show ?thesis by simp
qed

subsection \<open>Demand models\<close>

lemma select_none:
  assumes "length series \<le> length m" and "True \<notin> set m"
  shows "select series m = Inr []"
proof -
  have "\<not> (case x of (i, v) \<Rightarrow> m ! i)" if "x \<in> set (zip [0..<length series] series)" for x
  proof -
    obtain i v where x: "x = (i, v)" by (cases x)
    with that have "i \<in> set [0..<length series]" by (metis set_zip_leftD)
    then have "i < length m" using assms(1) by simp
    then have "m ! i \<in> set m" by (rule nth_mem)
    then have "\<not> m ! i" using assms(2) by metis
    then show ?thesis using x by simp
  qed
  then have "filter (\<lambda>(i, v). m ! i) (zip [0..<length series] series) = []"
    by (simp only: filter_empty_conv) blast
  then show ?thesis using assms(1) by (simp add: select_def)
qed

lemma calc_estimates_empty:
  "calc_estimates degree [] [] t = Inr ([], NaN, [])"
  by (simp add: calc_estimates_def calc_dd_def np_sum_def series_sum_def dropna_def sub_array_def)

lemma fit_selected_empty: "fit_selected solver degree [] [] idx = Inr nan_result"
  by (simp add: fit_selected_def leastsq_def calc_estimates_empty)

lemma demand_fit_empty:
  assumes tin: "length temp_in \<le> length (hourly cds)"
    and tout: "length temp_out \<le> length (hourly cds)"
    and rt: "length runtime_daily \<le> length (daily cds)"
    and d: "True \<notin> set (daily cds)" and h: "True \<notin> set (hourly cds)"
  shows "demand_fit solver degree temp_in temp_out runtime_daily cds = Inr nan_result"
proof -
  have s1: "select temp_in (hourly cds) = Inr []" using tin h by (rule select_none)
  have s2: "select temp_out (hourly cds) = Inr []" using tout h by (rule select_none)
  have s3: "select runtime_daily (daily cds) = Inr []" using rt d by (rule select_none)
  have sub: "sub_series [] [] = []" by (simp add: sub_series_def)
  show ?thesis
    by (simp add: demand_fit_def s1 s2 s3 sub fit_selected_empty)
qed

lemma set_over_masks:
  assumes "set_over n cds" and "True \<notin> set (daily cds)"
  shows "length (hourly cds) = 24 * n" and "True \<notin> set (hourly cds)" and "length (daily cds) = n"
  using assms by (auto simp: set_over_def length_concat_replicate)

text \<open>
  C2. For a core day set of an aligned record whose daily mask selects no day, the demand
  fitters raise nothing and return the result without days: an empty demand series, and NaN
  for tau, alpha, mse, rmse, cvrmse, mape and mae. The solver is entered, finds no
  residuals, and its \<open>TypeError\<close> is handled; this holds for every solver.
\<close>

theorem empty_core_day_set_gives_nan:
  assumes al: "aligned self" and d: "True \<notin> set (daily cds)"
  shows "(has_cooling self \<and> set_over (length (cool_runtime_daily self)) cds \<longrightarrow>
            get_cooling_demand solver self cds = Inr nan_result)
       \<and> (has_heating self \<and> set_over (length (heat_runtime_daily self)) cds \<longrightarrow>
            get_heating_demand solver self cds = Inr nan_result)"
proof (intro conjI impI)
  assume a: "has_cooling self \<and> set_over (length (cool_runtime_daily self)) cds"
  from set_over_masks [OF conjunct2 [OF a] d] al a
  have "length (temperature_in self) \<le> length (hourly cds)"
    "length (temperature_out self) \<le> length (hourly cds)"
    "length (cool_runtime_daily self) \<le> length (daily cds)"
    "True \<notin> set (hourly cds)"
    by (simp_all add: aligned_def)
  from demand_fit_empty [OF this(1,2,3) d this(4)] a
  show "get_cooling_demand solver self cds = Inr nan_result"
    by (simp add: get_cooling_demand_def protect_cooling_def)
next
  assume a: "has_heating self \<and> set_over (length (heat_runtime_daily self)) cds"
  from set_over_masks [OF conjunct2 [OF a] d] al a
  have "length (temperature_in self) \<le> length (hourly cds)"
    "length (temperature_out self) \<le> length (hourly cds)"
    "length (heat_runtime_daily self) \<le> length (daily cds)"
    "True \<notin> set (hourly cds)"
    by (simp_all add: aligned_def)
  from demand_fit_empty [OF this(1,2,3) d this(4)] a
  show "get_heating_demand solver self cds = Inr nan_result"
    by (simp add: get_heating_demand_def protect_heating_def)
qed

text \<open>The empty set of the fixtures, on the example record.\<close>

theorem empty_core_day_set_gives_nan_example:
  "get_cooling_demand example_solver example_record empty_set = Inr nan_result
   \<and> get_heating_demand example_solver example_record empty_set = Inr nan_result
   \<and> demand nan_result = [] \<and> isnan (tau nan_result) \<and> isnan (cvrmse nan_result)"
proof -
  have al: "aligned example_record" by code_simp
  have d: "True \<notin> set (daily empty_set)" by code_simp
  have c: "has_cooling example_record \<and> set_over (length (cool_runtime_daily example_record)) empty_set"
    by code_simp
  have h: "has_heating example_record \<and> set_over (length (heat_runtime_daily example_record)) empty_set"
    by code_simp
  from empty_core_day_set_gives_nan [OF al d, of example_solver] c h
  show ?thesis by (simp add: nan_result_def)
qed























subsection \<open>Resistance heat utilization\<close>




subsection \<open>Sigmoid fit\<close>

lemma calc_raises_independent:
  "isl (sigmoid_calc_estimates erf n p f) = isl (sigmoid_calc_estimates erf n q f)"
  by (simp add: sigmoid_calc_estimates_def Let_def split: sum.splits)

lemma least_squares_Inr:
  assumes "least_squares solver func x0 = Inr y"
  shows "\<exists>f0. func x0 = Inr f0"
  using assms by (auto simp: least_squares_def split: sum.splits)

lemma set_column_lookup: "map_of (columns (set_column f nm vals)) nm = Some vals"
proof (cases "nm \<in> set (map fst (columns f))")
  case True
  have "map_of (map (\<lambda>(k, c). if k = nm then (k, vals) else (k, c)) cs) nm = Some vals"
    if "nm \<in> set (map fst cs)" for cs
    using that by (induction cs) auto
  from this [OF True] show ?thesis using True by (simp add: set_column_def)
next
  case False
  then have "map_of (columns f) nm = None" by (simp add: map_of_eq_None_iff)
  then show ?thesis using False by (simp add: set_column_def map_add_def)
qed

text \<open>
  C10. When the least-squares solve of \<open>fit_sigmoid_model\<close> succeeds, the frame that the
  caller passed has, after the call, the column \<open>estimated_rhu\<close> with the fitted curve at
  the midpoint of every bin, and the four estimates are returned. When the solve raises,
  whatever the exception, the frame is as it was and the four returned values are \<open>None\<close>.
  The objective function raises at the solution only if it raises at the starting point,
  where the solve would have raised already.
\<close>

theorem fit_sigmoid_model_frame:
  "(\<forall>y. least_squares solver (\<lambda>p. sigmoid_calc_estimates erf n p f) (Fin 30, Fin 5) = Inr y \<longrightarrow>
      (\<exists>err.
         fit_sigmoid_model erf solver f n =
           (set_column f ''estimated_rhu''
              (map (\<lambda>x. sigmoid erf (fst y) (snd y) (mid x)) (index f)),
            (Some (fst y), Some (snd y), Some err,
             Some (series_sum (map (\<lambda>x. sigmoid erf (fst y) (snd y) (mid x)) (index f)))))
         \<and> map_of (columns (fst (fit_sigmoid_model erf solver f n))) ''estimated_rhu''
             = Some (map (\<lambda>x. sigmoid erf (fst y) (snd y) (mid x)) (index f))))
   \<and> (\<forall>e. least_squares solver (\<lambda>p. sigmoid_calc_estimates erf n p f) (Fin 30, Fin 5) = Inl e \<longrightarrow>
        fit_sigmoid_model erf solver f n = (f, (None, None, None, None)))"
proof (intro conjI allI impI)
  fix y
  assume ls: "least_squares solver (\<lambda>p. sigmoid_calc_estimates erf n p f) (Fin 30, Fin 5) = Inr y"
  from least_squares_Inr [OF ls] obtain f0 where
    "sigmoid_calc_estimates erf n (Fin 30, Fin 5) f = Inr f0" by blast
  then have "\<not> isl (sigmoid_calc_estimates erf n (Fin 30, Fin 5) f)" by simp
  then have "\<not> isl (sigmoid_calc_estimates erf n y f)"
    using calc_raises_independent [of erf n y f "(Fin 30, Fin 5)"] by simp
  then obtain err where err: "sigmoid_calc_estimates erf n y f = Inr err"
    by (cases "sigmoid_calc_estimates erf n y f") auto
  have eq: "fit_sigmoid_model erf solver f n =
           (set_column f ''estimated_rhu''
              (map (\<lambda>x. sigmoid erf (fst y) (snd y) (mid x)) (index f)),
            (Some (fst y), Some (snd y), Some err,
             Some (series_sum (map (\<lambda>x. sigmoid erf (fst y) (snd y) (mid x)) (index f)))))"
    by (simp add: fit_sigmoid_model_def ls err Let_def)
  show "\<exists>err.
         fit_sigmoid_model erf solver f n =
           (set_column f ''estimated_rhu''
              (map (\<lambda>x. sigmoid erf (fst y) (snd y) (mid x)) (index f)),
            (Some (fst y), Some (snd y), Some err,
             Some (series_sum (map (\<lambda>x. sigmoid erf (fst y) (snd y) (mid x)) (index f)))))
         \<and> map_of (columns (fst (fit_sigmoid_model erf solver f n))) ''estimated_rhu''
             = Some (map (\<lambda>x. sigmoid erf (fst y) (snd y) (mid x)) (index f))"
    unfolding eq by (simp add: set_column_lookup)
next
  fix e
  assume "least_squares solver (\<lambda>p. sigmoid_calc_estimates erf n p f) (Fin 30, Fin 5) = Inl e"
  then show "fit_sigmoid_model erf solver f n = (f, (None, None, None, None))"
    by (simp add: fit_sigmoid_model_def Let_def)
qed

lemma example_frame_estimates:
  "sigmoid_calc_estimates zero_erf 2 (Fin 30, Fin 5) example_frame = Inr (Fin 0)"
  by (simp add: sigmoid_calc_estimates_def example_frame_def dropna_rows_def select_rows_def
        column_def Let_def mid_def sigmoid_def zero_erf_def fl_sub_def np_sum_def
        series_sum_def dropna_def upt_rec)

lemma bare_frame_estimates:
  "sigmoid_calc_estimates zero_erf 2 (Fin 30, Fin 5) bare_frame = Inl AttributeError"
  by (simp add: sigmoid_calc_estimates_def bare_frame_def dropna_rows_def select_rows_def
        column_def Let_def upt_rec)

text \<open>A successful fit, a solver that fails, and a frame without the column \<open>n_points\<close>.\<close>

theorem fit_sigmoid_model_frame_example:
  "fit_sigmoid_model zero_erf fixed_solver example_frame 2
     = (\<lparr> index = [(30, 35), (35, 40)],
          columns = [(''n_points'', [Fin 5, Fin 7]), (''rhu'', [Fin (1 / 2), Fin (1 / 2)]),
                     (''estimated_rhu'', [Fin (1 / 2), Fin (1 / 2)])] \<rparr>,
        (Some (Fin 30), Some (Fin 5), Some (Fin 0), Some (Fin 1)))
   \<and> fit_sigmoid_model zero_erf failing_solver example_frame 2
        = (example_frame, (None, None, None, None))
   \<and> fit_sigmoid_model zero_erf fixed_solver bare_frame 2
        = (bare_frame, (None, None, None, None))"
proof -
  have ok: "least_squares fixed_solver
              (\<lambda>p. sigmoid_calc_estimates zero_erf 2 p example_frame) (Fin 30, Fin 5)
            = Inr (Fin 30, Fin 5)"
    by (simp add: least_squares_def example_frame_estimates fixed_solver_def)
  have fail: "least_squares failing_solver
              (\<lambda>p. sigmoid_calc_estimates zero_erf 2 p example_frame) (Fin 30, Fin 5)
            = Inl SolverError"
    by (simp add: least_squares_def example_frame_estimates failing_solver_def)
  have bare: "least_squares fixed_solver
              (\<lambda>p. sigmoid_calc_estimates zero_erf 2 p bare_frame) (Fin 30, Fin 5)
            = Inl AttributeError"
    by (simp add: least_squares_def bare_frame_estimates)
  from fit_sigmoid_model_frame [of fixed_solver zero_erf 2 example_frame] ok
  obtain err where a: "fit_sigmoid_model zero_erf fixed_solver example_frame 2 =
           (set_column example_frame ''estimated_rhu''
              (map (\<lambda>x. sigmoid zero_erf (Fin 30) (Fin 5) (mid x)) (index example_frame)),
            (Some (Fin 30), Some (Fin 5), Some err,
             Some (series_sum (map (\<lambda>x. sigmoid zero_erf (Fin 30) (Fin 5) (mid x))
                                   (index example_frame)))))"
    by fastforce
  have err: "err = Fin 0"
    using a by (simp add: fit_sigmoid_model_def ok example_frame_estimates Let_def)
  have est: "map (\<lambda>x. sigmoid zero_erf (Fin 30) (Fin 5) (mid x)) (index example_frame)
             = [Fin (1 / 2), Fin (1 / 2)]"
    by (simp add: example_frame_def sigmoid_def zero_erf_def mid_def fl_sub_def)
  have b: "fit_sigmoid_model zero_erf failing_solver example_frame 2
        = (example_frame, (None, None, None, None))"
    using fit_sigmoid_model_frame [of failing_solver zero_erf 2 example_frame] fail by blast
  have c: "fit_sigmoid_model zero_erf fixed_solver bare_frame 2
        = (bare_frame, (None, None, None, None))"
    using fit_sigmoid_model_frame [of fixed_solver zero_erf 2 bare_frame] bare by blast
  show ?thesis
    unfolding b c a est err
    by (simp add: set_column_def example_frame_def series_sum_def dropna_def np_sum_def)
qed

end
